theory Spec2Isabelle
  imports Complex_Main "HOL-Library.Word" "HOL-Library.Log_Nat"
begin

section \<open>Values, exceptions and the world the trainer acts on\<close>

text \<open>
  The development embeds \<^verbatim>\<open>train.py\<close>: the class \<^verbatim>\<open>Trainer\<close> with its methods
  \<^verbatim>\<open>_save_generated_images\<close>, \<^verbatim>\<open>get_dataset\<close>, \<^verbatim>\<open>pretrain_generator\<close> and the loss
  graph of \<^verbatim>\<open>train_gan\<close>. Tensors are lists of reals (the floating point of the
  tensors is idealised to the reals; the one double of the Python code, the quotient
  in \<^verbatim>\<open>int(a / b)\<close>, is rounded as a double), an image is rows of pixels of channel
  values, a batch is a list of images. Python exceptions are values of the type \<open>error\<close>; a statement is a function
  from the world to an outcome and the world it leaves behind, so that the effects of
  a statement that raised stay visible.
\<close>

type_synonym tensor = "real list"
type_synonym image = "real list list list"
type_synonym batch = "image list"
type_synonym store = "string \<Rightarrow> tensor"

datatype error =
    ValueError string
  | KeyError string
  | TypeError string
  | IndexError string
  | ZeroDivisionError
  | InvalidArgumentError string
  | OutOfRangeError
  | FileNotFoundError string
  | OverflowError string

text \<open>The Python values that reach \<^verbatim>\<open>str.format\<close>, \<^verbatim>\<open>+\<close> and \<^verbatim>\<open>file.write\<close>.\<close>

datatype pyval = PInt int | PFloat real | PStr string | PTimedelta real

text \<open>One subplot of a figure: the grid it was requested for, its position, the image
  drawn into it and whether its axes are still visible.\<close>

record subplot =
  grid_rows :: int
  grid_cols :: int
  position :: int
  shown :: "image option"
  axis_on :: bool

record figure =
  figsize :: "int \<times> int"
  subplots :: "subplot list"

datatype event =
    RanTrainOp
  | SavedCheckpoint string string
  | SavedFigure string figure

record world =
  log_records :: "string list"
  variables :: store
  batches_fetched :: nat
  figures :: "(nat \<times> figure) list"
  directories :: "string list"
  checkpoints :: "string \<times> string \<rightharpoonup> store"
  text_files :: "string \<rightharpoonup> string"
  events :: "event list"
  clock :: real

type_synonym 'a run = "world \<Rightarrow> (error + 'a) \<times> world"

definition returns :: "'a \<Rightarrow> 'a run" where
  "returns a w = (Inr a, w)"

definition raises :: "error \<Rightarrow> 'a run" where
  "raises e w = (Inl e, w)"

text \<open>Sequencing of two statements: an exception of the first skips the second.\<close>

definition seq :: "'a run \<Rightarrow> ('a \<Rightarrow> 'b run) \<Rightarrow> 'b run" where
  "seq m f w = (case m w of (Inl e, w') \<Rightarrow> (Inl e, w') | (Inr a, w') \<Rightarrow> f a w')"

text \<open>A \<^verbatim>\<open>for\<close> loop over a list with a body that returns nothing.\<close>

fun for_each :: "'a list \<Rightarrow> ('a \<Rightarrow> unit run) \<Rightarrow> unit run" where
  "for_each [] body = returns ()"
| "for_each (x # xs) body = seq (body x) (\<lambda>_. for_each xs body)"

text \<open>A \<^verbatim>\<open>for\<close> loop that appends one result per round to a list (the
  \<^verbatim>\<open>xs = []; for ...: xs.append(...)\<close> idiom).\<close>

fun collect :: "'a list \<Rightarrow> ('a \<Rightarrow> 'b run) \<Rightarrow> 'b list run" where
  "collect [] body = returns []"
| "collect (x # xs) body =
     seq (body x) (\<lambda>y. seq (collect xs body) (\<lambda>ys. returns (y # ys)))"

text \<open>\<^verbatim>\<open>try: body except ValueError: handler\<close>: only a \<open>ValueError\<close> is caught.\<close>

definition try_except_ValueError :: "'a run \<Rightarrow> 'a run \<Rightarrow> 'a run" where
  "try_except_ValueError body handler w =
     (case body w of
        (Inl (ValueError msg), w') \<Rightarrow> handler w'
      | r \<Rightarrow> r)"

text \<open>\<^verbatim>\<open>range(n)\<close>: empty when \<open>n \<le> 0\<close>.\<close>

definition range_py :: "int \<Rightarrow> int list" where
  "range_py n = map int [0..<nat n]"

text \<open>\<^verbatim>\<open>a // b\<close> and \<^verbatim>\<open>a % b\<close> on Python integers: floor division, the remainder has
  the sign of the divisor, a zero divisor raises.\<close>

definition floordiv :: "int \<Rightarrow> int \<Rightarrow> int run" where
  "floordiv a b = (if b = 0 then raises ZeroDivisionError else returns (a div b))"

definition pymod :: "int \<Rightarrow> int \<Rightarrow> int run" where
  "pymod a b = (if b = 0 then raises ZeroDivisionError else returns (a mod b))"

text \<open>
  \<^verbatim>\<open>int(a / b)\<close> on Python integers. The quotient \<^verbatim>\<open>a / b\<close> is a double: the exact
  quotient rounded to 53 significant bits, ties to the even mantissa; \<^verbatim>\<open>int\<close> then
  truncates towards zero. A zero divisor raises \<open>ZeroDivisionError\<close>, a quotient beyond
  the largest double raises \<open>OverflowError\<close>.

  For positive \<open>a\<close> and \<open>b\<close> the quotient lies between \<open>2 ^ (d - 1)\<close> and \<open>2 ^ (d + 1)\<close>,
  where \<open>d\<close> is the difference of the bit lengths. \<open>scaled a b s\<close> is the fraction
  \<open>a * 2 ^ s / b\<close> for an integer \<open>s\<close>; the shift \<open>s\<close> is chosen so that its integer part
  has exactly 53 bits, \<open>round_half_even\<close> gives the mantissa, and the double is the
  mantissa times \<open>2 ^ (- s)\<close>.
\<close>

definition round_half_even :: "int \<Rightarrow> int \<Rightarrow> int" where
  "round_half_even n m =
     (let q = n div m; r = n mod m
      in if m < 2 * r \<or> (2 * r = m \<and> odd q) then q + 1 else q)"

definition scaled :: "int \<Rightarrow> int \<Rightarrow> int \<Rightarrow> int \<times> int" where
  "scaled a b s = (if 0 \<le> s then (a * 2 ^ nat s, b) else (a, b * 2 ^ nat (- s)))"

definition truncated_double_quotient :: "int \<Rightarrow> int \<Rightarrow> int" where
  "truncated_double_quotient a b =
     (let s0 = 53 - (bitlen a - bitlen b);
          s = (if 2 ^ 53 \<le> fst (scaled a b s0) div snd (scaled a b s0) then s0 - 1 else s0);
          mantissa = round_half_even (fst (scaled a b s)) (snd (scaled a b s))
      in if 0 \<le> s then mantissa div 2 ^ nat s else mantissa * 2 ^ nat (- s))"

definition int_truediv :: "int \<Rightarrow> int \<Rightarrow> int run" where
  "int_truediv a b =
     (if b = 0 then raises ZeroDivisionError
      else if a = 0 then returns 0
      else if 2 ^ 1024 \<le> truncated_double_quotient \<bar>a\<bar> \<bar>b\<bar>
      then raises (OverflowError ''integer division result too large for a float'')
      else returns (sgn a * sgn b * truncated_double_quotient \<bar>a\<bar> \<bar>b\<bar>))"

text \<open>\<^verbatim>\<open>str(n)\<close> of a Python integer.\<close>

fun str_nat :: "nat \<Rightarrow> string" where
  "str_nat n =
     (if n < 10 then [''0123456789'' ! n]
      else str_nat (n div 10) @ [''0123456789'' ! (n mod 10)])"

declare str_nat.simps [simp del]

definition str_int :: "int \<Rightarrow> string" where
  "str_int i = (if i < 0 then CHR ''-'' # str_nat (nat (- i)) else str_nat (nat i))"

definition logger_info :: "string \<Rightarrow> unit run" where
  "logger_info msg w = (Inr (), w\<lparr>log_records := log_records w @ [msg]\<rparr>)"

section \<open>The plotting library, as far as the trainer uses it\<close>

text \<open>
  \<^verbatim>\<open>plt.figure\<close> opens a new figure, numbered one above the largest open number, and
  makes it the current one. \<^verbatim>\<open>fig.add_subplot(rows, cols, num)\<close> raises
  \<open>ValueError\<close> unless \<open>1 \<le> num \<le> rows * cols\<close> on a grid with positive sides; the
  new subplot is the current axes, which \<^verbatim>\<open>plt.imshow\<close> and \<^verbatim>\<open>plt.axis("off")\<close> act
  on. \<^verbatim>\<open>plt.close(fig)\<close> removes the figure from the open ones.
\<close>

definition new_figure_number :: "(nat \<times> figure) list \<Rightarrow> nat" where
  "new_figure_number figs = (if figs = [] then 1 else Max (set (map fst figs)) + 1)"

definition plt_figure :: "int \<times> int \<Rightarrow> nat run" where
  "plt_figure sz w =
     (let num = new_figure_number (figures w)
      in (Inr num, w\<lparr>figures := figures w @ [(num, \<lparr>figsize = sz, subplots = []\<rparr>)]\<rparr>))"

definition update_figure :: "nat \<Rightarrow> (figure \<Rightarrow> figure) \<Rightarrow> world \<Rightarrow> world" where
  "update_figure fig f w =
     w\<lparr>figures := map (\<lambda>(n, g). if n = fig then (n, f g) else (n, g)) (figures w)\<rparr>"

definition add_subplot :: "nat \<Rightarrow> int \<Rightarrow> int \<Rightarrow> int \<Rightarrow> unit run" where
  "add_subplot fig rows cols num w =
     (if rows \<le> 0 \<or> cols \<le> 0 then
        (Inl (ValueError ''Number of rows and columns must be positive''), w)
      else if num < 1 \<or> rows * cols < num then
        (Inl (ValueError (''num must be 1 <= num <= '' @ str_int (rows * cols)
                          @ '', not '' @ str_int num)), w)
      else
        (Inr (), update_figure fig (\<lambda>g. g\<lparr>subplots := subplots g @
           [\<lparr>grid_rows = rows, grid_cols = cols, position = num,
             shown = None, axis_on = True\<rparr>]\<rparr>) w))"

definition on_current_axes :: "(subplot \<Rightarrow> subplot) \<Rightarrow> figure \<Rightarrow> figure" where
  "on_current_axes f g =
     (case rev (subplots g) of
        [] \<Rightarrow> g
      | a # as \<Rightarrow> g\<lparr>subplots := rev as @ [f a]\<rparr>)"

definition plt_imshow :: "nat \<Rightarrow> image \<Rightarrow> unit run" where
  "plt_imshow fig img w =
     (Inr (), update_figure fig (on_current_axes (\<lambda>a. a\<lparr>shown := Some img\<rparr>)) w)"

definition plt_axis_off :: "nat \<Rightarrow> unit run" where
  "plt_axis_off fig w =
     (Inr (), update_figure fig (on_current_axes (\<lambda>a. a\<lparr>axis_on := False\<rparr>)) w)"

definition path_join :: "string \<Rightarrow> string \<Rightarrow> string" where
  "path_join directory name = directory @ ''/'' @ name"

definition path_exists :: "string \<Rightarrow> world \<Rightarrow> bool" where
  "path_exists p w = (p \<in> set (directories w))"

definition makedirs :: "string \<Rightarrow> unit run" where
  "makedirs p w = (Inr (), w\<lparr>directories := directories w @ [p]\<rparr>)"

definition plt_savefig :: "nat \<Rightarrow> string \<Rightarrow> unit run" where
  "plt_savefig fig path w =
     (case map_of (figures w) fig of
        None \<Rightarrow> (Inr (), w)
      | Some g \<Rightarrow> (Inr (), w\<lparr>events := events w @ [SavedFigure path g]\<rparr>))"

definition plt_close :: "nat \<Rightarrow> unit run" where
  "plt_close fig w = (Inr (), w\<lparr>figures := filter (\<lambda>(n, g). n \<noteq> fig) (figures w)\<rparr>)"

section \<open>\<^verbatim>\<open>Trainer._save_generated_images\<close>\<close>

text \<open>
  \<^verbatim>\<open>
  def _save_generated_images(self, batch_x, directory="result", image_name=None,
                             num_images_per_row=8):
      batch_size = batch_x.shape[0]
      fig_width = 8
      num_rows = batch_size // num_images_per_row if batch_size >= num_images_per_row else 1
      fig_height = 6
      fig = plt.figure(figsize=(fig_width, fig_height))
      for i in range(batch_size):
          fig.add_subplot(num_rows, num_images_per_row, i + 1)
          plt.imshow(batch_x[i])
          plt.axis("off")
      if image_name is not None:
          if not os.path.exists(directory):
              os.makedirs(directory)
          plt.savefig(os.path.join(directory, image_name))
      plt.close(fig)
  \<close>
  The method has no \<^verbatim>\<open>return\<close>: its value is \<open>()\<close>.
\<close>

definition save_generated_images ::
    "batch \<Rightarrow> string \<Rightarrow> string option \<Rightarrow> int \<Rightarrow> unit run" where
  "save_generated_images batch_x directory image_name num_images_per_row =
     (let batch_size = int (length batch_x);
          fig_width = 8
      in seq (if batch_size \<ge> num_images_per_row
              then floordiv batch_size num_images_per_row else returns 1) (\<lambda>num_rows.
         let fig_height = 6
         in seq (plt_figure (fig_width, fig_height)) (\<lambda>fig.
            seq (for_each [0..<length batch_x] (\<lambda>i.
                   seq (add_subplot fig num_rows num_images_per_row (int i + 1)) (\<lambda>_.
                   seq (plt_imshow fig (batch_x ! i)) (\<lambda>_.
                   plt_axis_off fig)))) (\<lambda>_.
            seq (case image_name of
                   None \<Rightarrow> returns ()
                 | Some name \<Rightarrow>
                     seq (\<lambda>w. if \<not> path_exists directory w
                              then makedirs directory w else returns () w) (\<lambda>_.
                     plt_savefig fig (path_join directory name))) (\<lambda>_.
            plt_close fig)))))"

section \<open>The configuration and the external collaborators\<close>

text \<open>The fields that \<^verbatim>\<open>Trainer.__init__\<close> stores and the methods below read. The
  logger is the \<open>log_records\<close> of the world.\<close>

record trainer =
  dataset_name :: string
  source_domain :: string
  target_domain :: string
  input_size :: int
  batch_size :: int
  sample_size :: int
  save_dir :: string
  pass_vgg :: bool
  pretrain_learning_rate :: real
  pretrain_num_steps :: int
  pretrain_reporting_steps :: int
  pretrain_generator_name :: string

text \<open>
  What the trainer consumes and this file does not define: the file system listing,
  the image decoder and resizer of the numeric runtime, the order in which the
  shuffled, repeated data set delivers its files, the networks (\<^verbatim>\<open>Generator\<close>,
  \<^verbatim>\<open>Discriminator\<close>, \<^verbatim>\<open>FixedVGG\<close>, each a function of the current variables and
  an input batch), the names in \<^verbatim>\<open>g.to_save_vars\<close> and \<^verbatim>\<open>d.to_save_vars\<close>, the
  values \<^verbatim>\<open>tf.global_variables_initializer\<close> assigns, the update rule of
  \<^verbatim>\<open>tf.train.AdamOptimizer\<close> (from the learning rate, the loss as a function of the
  variables, the variable list and the variables, to the values it assigns to the
  listed variables and to their moment slots), and the rendering of a value under a
  format specification.
\<close>

record env =
  glob :: "string \<Rightarrow> string list"
  read_file :: "string \<Rightarrow> string"
  decode_jpeg :: "string \<Rightarrow> nat \<Rightarrow> 8 word list list list"
  resize_images :: "8 word list list list \<Rightarrow> int \<Rightarrow> int \<Rightarrow> image"
  shuffle_order :: "nat \<Rightarrow> nat"
  generator :: "store \<Rightarrow> batch \<Rightarrow> batch"
  discriminator :: "store \<Rightarrow> batch \<Rightarrow> tensor"
  vgg :: "store \<Rightarrow> batch \<Rightarrow> tensor"
  g_to_save_vars :: "string list"
  d_to_save_vars :: "string list"
  initial_values :: store
  adam :: "real \<Rightarrow> (store \<Rightarrow> real) \<Rightarrow> string list \<Rightarrow> store \<Rightarrow> store"
  format_value :: "string \<Rightarrow> pyval \<Rightarrow> string"

section \<open>Array operations\<close>

text \<open>\<^verbatim>\<open>np.concatenate(batches, axis=0)\<close> raises \<open>ValueError\<close> on an empty list.\<close>

definition np_concatenate :: "batch list \<Rightarrow> batch run" where
  "np_concatenate batches =
     (if batches = [] then raises (ValueError ''need at least one array to concatenate'')
      else returns (concat batches))"

definition clip :: "real \<Rightarrow> real \<Rightarrow> real \<Rightarrow> real" where
  "clip lo hi v = min hi (max lo v)"

definition np_clip :: "batch \<Rightarrow> real \<Rightarrow> real \<Rightarrow> batch" where
  "np_clip x lo hi = map (map (map (map (clip lo hi)))) x"

text \<open>The values of an image, of a batch; elementwise difference and absolute value of
  two tensors of one shape; \<^verbatim>\<open>tf.reduce_mean\<close>. (The runtime's mean of no values is
  not a number; here it is 0. The tensors below are never empty in a run.)\<close>

definition pixels :: "image \<Rightarrow> real list" where
  "pixels img = concat (concat img)"

definition flatten :: "batch \<Rightarrow> tensor" where
  "flatten x = concat (map pixels x)"

definition tf_sub :: "tensor \<Rightarrow> tensor \<Rightarrow> tensor" where
  "tf_sub a b = map2 (\<lambda>x y. x - y) a b"

definition tf_abs :: "tensor \<Rightarrow> tensor" where
  "tf_abs a = map abs a"

definition reduce_mean :: "tensor \<Rightarrow> real" where
  "reduce_mean a = sum_list a / real (length a)"

definition ones_like :: "tensor \<Rightarrow> tensor" where
  "ones_like a = map (\<lambda>_. 1) a"

definition zeros_like :: "tensor \<Rightarrow> tensor" where
  "zeros_like a = map (\<lambda>_. 0) a"

text \<open>\<^verbatim>\<open>tf.losses.sigmoid_cross_entropy(labels, logits)\<close>: the elementwise loss
  \<open>max(x, 0) - x * z + log(1 + exp(-|x|))\<close> of the runtime, summed and divided by the
  number of elements (all weights are 1).\<close>

definition sigmoid_cross_entropy_with_logits :: "real \<Rightarrow> real \<Rightarrow> real" where
  "sigmoid_cross_entropy_with_logits z x = max x 0 - x * z + ln (1 + exp (- \<bar>x\<bar>))"

definition sigmoid_cross_entropy :: "tensor \<Rightarrow> tensor \<Rightarrow> real" where
  "sigmoid_cross_entropy labels logits =
     sum_list (map2 sigmoid_cross_entropy_with_logits labels logits) / real (length logits)"

section \<open>\<^verbatim>\<open>Trainer.get_dataset\<close>\<close>

text \<open>
  \<^verbatim>\<open>
  def get_dataset(self, dataset_name, domain, _type, batch_size):
      files = glob(os.path.join("datasets", dataset_name, f"{_type}{domain}", "*"))
      self.logger.info(f"{len(files)} domain{domain} images available in {_type}{domain} folder.")
      ds = tf.data.Dataset.from_tensor_slices(files)
      def image_processing(filename):
          x = tf.read_file(filename)
          x = tf.image.decode_jpeg(x, channels=3)
          img = tf.image.resize_images(x, [self.input_size, self.input_size])
          img = tf.cast(img, tf.float32) / 127.5 - 1
          return img
      return ds.map(image_processing).shuffle(10000).repeat().batch(batch_size)
  \<close>
  A data set is its files, the function mapped over them and the batch size. The
  resizer already returns floats, so the cast changes nothing. \<^verbatim>\<open>ds.map\<close> traces
  \<^verbatim>\<open>image_processing\<close> when the data set is built: an empty list of files is a tensor of
  floats, which \<^verbatim>\<open>tf.read_file\<close> rejects with \<open>TypeError\<close>, so that
  \<^verbatim>\<open>get_dataset\<close> raises at line 110, after it has logged the count.
\<close>

record dataset =
  ds_files :: "string list"
  ds_map :: "string \<Rightarrow> image"
  ds_batch :: int

definition image_processing :: "trainer \<Rightarrow> env \<Rightarrow> string \<Rightarrow> image" where
  "image_processing self e filename =
     (let x = read_file e filename;
          x = decode_jpeg e x 3;
          img = resize_images e x (input_size self) (input_size self);
          img = map (map (map (\<lambda>v. v / 127.5 - 1))) img
      in img)"

definition get_dataset ::
    "trainer \<Rightarrow> env \<Rightarrow> string \<Rightarrow> string \<Rightarrow> string \<Rightarrow> int \<Rightarrow> dataset run" where
  "get_dataset self e dataset_name' domain type' batch_size' =
     (let files = glob e (path_join (path_join (path_join ''datasets'' dataset_name')
                                      (type' @ domain)) ''*'')
      in seq (logger_info (str_int (int (length files)) @ '' domain'' @ domain
                @ '' images available in '' @ type' @ domain @ '' folder.'')) (\<lambda>_.
         if files = []
         then raises (TypeError ''Input filename of ReadFile Op has type float32'')
         else returns \<lparr>ds_files = files, ds_map = image_processing self e,
                       ds_batch = batch_size'\<rparr>))"

text \<open>
  The iterator of a data set. Running its initializer rewinds it; the runtime rejects
  a batch size that is not positive there. Each evaluation of \<^verbatim>\<open>ds_iter.get_next()\<close>
  delivers the next \<open>ds_batch\<close> elements of the shuffled, repeated sequence: element
  \<open>k\<close> of that sequence is the image of the file chosen by \<open>shuffle_order\<close>. A data set
  without files (which \<^verbatim>\<open>get_dataset\<close> never returns) delivers no batch.
\<close>

definition iterator_initializer :: "dataset \<Rightarrow> unit run" where
  "iterator_initializer ds w =
     (if ds_batch ds \<le> 0
      then (Inl (InvalidArgumentError ''Batch size must be greater than zero.''), w)
      else (Inr (), w\<lparr>batches_fetched := 0\<rparr>))"

definition element_at :: "env \<Rightarrow> dataset \<Rightarrow> nat \<Rightarrow> image" where
  "element_at e ds k = ds_map ds (ds_files ds ! (shuffle_order e k mod length (ds_files ds)))"

definition get_next :: "env \<Rightarrow> dataset \<Rightarrow> batch run" where
  "get_next e ds w =
     (if ds_files ds = [] then (Inl OutOfRangeError, w)
      else
        (let b = nat (ds_batch ds); k = batches_fetched w
         in (Inr (map (element_at e ds) [k * b..<k * b + b]),
             w\<lparr>batches_fetched := k + 1\<rparr>)))"

section \<open>The session: variables, the optimizer, the generator's checkpoints\<close>

text \<open>
  The session's variables are the networks' variables and the variables the optimizer
  creates: \<^verbatim>\<open>tf.train.AdamOptimizer\<close> keeps \<^verbatim>\<open>beta1_power\<close> and \<^verbatim>\<open>beta2_power\<close> and,
  for every variable \<open>v\<close> it is to update, the moment slots \<^verbatim>\<open>v/Adam\<close> and
  \<^verbatim>\<open>v/Adam_1\<close>. \<^verbatim>\<open>tf.global_variables_initializer\<close> assigns all of them.
\<close>

definition global_variables_initializer :: "env \<Rightarrow> unit run" where
  "global_variables_initializer e w = (Inr (), w\<lparr>variables := initial_values e\<rparr>)"

definition adam_slots :: "string list \<Rightarrow> string list" where
  "adam_slots var_list = concat (map (\<lambda>v. [v @ ''/Adam'', v @ ''/Adam_1'']) var_list)"

definition adam_variables :: "string list \<Rightarrow> string list" where
  "adam_variables var_list = [''beta1_power'', ''beta2_power''] @ adam_slots var_list"

text \<open>
  \<^verbatim>\<open>opt.minimize(loss, var_list=vs)\<close> builds the training operation; running it
  assigns the optimizer's values to the variables named in \<open>vs\<close> and to their moment
  slots, and multiplies \<^verbatim>\<open>beta1_power\<close> by \<open>beta1 = 0.9\<close> and \<^verbatim>\<open>beta2_power\<close> by
  \<open>beta2 = 0.999\<close> (the defaults, which line 139 keeps). No other variable is assigned.
\<close>

definition minimize :: "env \<Rightarrow> real \<Rightarrow> (store \<Rightarrow> real) \<Rightarrow> string list \<Rightarrow> unit run" where
  "minimize e learning_rate loss var_list w =
     (let assigned = adam e learning_rate loss var_list (variables w)
      in (Inr (), w\<lparr>variables := (\<lambda>v.
                      if v \<in> set var_list \<or> v \<in> set (adam_slots var_list) then assigned v
                      else if v = ''beta1_power'' then map (\<lambda>x. x * (9 / 10)) (variables w v)
                      else if v = ''beta2_power''
                        then map (\<lambda>x. x * (999 / 1000)) (variables w v)
                      else variables w v),
                    events := events w @ [RanTrainOp]\<rparr>))"

text \<open>
  Modelled from the spec: \<^verbatim>\<open>Generator.save\<close> and \<^verbatim>\<open>Generator.load\<close> live in
  \<^verbatim>\<open>generator.py\<close>, which is not among the sources. The spec has the generator's
  parameter set persisted to a checkpoint identified by (save directory, checkpoint
  name) and reloaded if present, the absence of a checkpoint being a failure of the
  restore; \<^verbatim>\<open>pretrain_generator\<close> names that failure \<open>ValueError\<close>.
\<close>

definition generator_save :: "env \<Rightarrow> string \<Rightarrow> string \<Rightarrow> unit run" where
  "generator_save e directory name w =
     (Inr (), w\<lparr>checkpoints := (checkpoints w)((directory, name) \<mapsto> variables w),
                 events := events w @ [SavedCheckpoint directory name]\<rparr>)"

definition generator_load :: "env \<Rightarrow> string \<Rightarrow> string \<Rightarrow> unit run" where
  "generator_load e directory name w =
     (case checkpoints w (directory, name) of
        None \<Rightarrow> (Inl (ValueError ''checkpoint not found''), w)
      | Some saved \<Rightarrow>
          (Inr (), w\<lparr>variables := (\<lambda>v. if v \<in> set (g_to_save_vars e) then saved v
                                        else variables w v)\<rparr>))"

definition utcnow :: "real run" where
  "utcnow w = (Inr (clock w), w)"

section \<open>\<^verbatim>\<open>str.format\<close>, \<^verbatim>\<open>+\<close> and files\<close>

text \<open>
  A format string is its literal pieces and replacement fields: \<open>Auto spec\<close> is an
  automatically numbered field \<^verbatim>\<open>{:spec}\<close>, \<open>Named name spec\<close> is \<^verbatim>\<open>{name:spec}\<close>.
  \<^verbatim>\<open>str.format\<close> fills the fields from left to right: an automatic field takes the next
  positional argument (\<open>IndexError\<close> when there is none), a named field looks its name
  up in the keyword arguments (\<open>KeyError\<close> when it is missing).
\<close>

datatype fmt_piece = Lit string | Auto string | Named string string

fun str_format ::
    "(string \<Rightarrow> pyval \<Rightarrow> string) \<Rightarrow> fmt_piece list \<Rightarrow> pyval list \<Rightarrow> (string \<times> pyval) list
     \<Rightarrow> error + string" where
  "str_format render [] args kwargs = Inr []"
| "str_format render (Lit s # ps) args kwargs =
     (case str_format render ps args kwargs of
        Inl err \<Rightarrow> Inl err
      | Inr r \<Rightarrow> Inr (s @ r))"
| "str_format render (Auto spec # ps) args kwargs =
     (case args of
        [] \<Rightarrow> Inl (IndexError ''Replacement index out of range for positional args tuple'')
      | a # rest \<Rightarrow>
          (case str_format render ps rest kwargs of
             Inl err \<Rightarrow> Inl err
           | Inr r \<Rightarrow> Inr (render spec a @ r)))"
| "str_format render (Named name spec # ps) args kwargs =
     (case map_of kwargs name of
        None \<Rightarrow> Inl (KeyError name)
      | Some v \<Rightarrow>
          (case str_format render ps args kwargs of
             Inl err \<Rightarrow> Inl err
           | Inr r \<Rightarrow> Inr (render spec v @ r)))"

definition lift :: "error + 'a \<Rightarrow> 'a run" where
  "lift r w = (r, w)"

text \<open>\<^verbatim>\<open>a + b\<close>: numbers add, strings concatenate, a number and a string raise
  \<open>TypeError\<close>.\<close>

fun py_add :: "pyval \<Rightarrow> pyval \<Rightarrow> error + pyval" where
  "py_add (PInt a) (PInt b) = Inr (PInt (a + b))"
| "py_add (PInt a) (PFloat b) = Inr (PFloat (real_of_int a + b))"
| "py_add (PFloat a) (PInt b) = Inr (PFloat (a + real_of_int b))"
| "py_add (PFloat a) (PFloat b) = Inr (PFloat (a + b))"
| "py_add (PStr a) (PStr b) = Inr (PStr (a @ b))"
| "py_add (PTimedelta a) (PTimedelta b) = Inr (PTimedelta (a + b))"
| "py_add a b = Inl (TypeError ''unsupported operand type(s) for +'')"

text \<open>\<^verbatim>\<open>open(path, "a")\<close> creates the file when it is missing and needs its directory;
  \<^verbatim>\<open>f.write\<close> takes exactly one argument, a string, and appends it.\<close>

definition dirname :: "string \<Rightarrow> string" where
  "dirname p = rev (drop 1 (dropWhile (\<lambda>c. c \<noteq> CHR ''/'') (rev p)))"

definition open_append :: "string \<Rightarrow> unit run" where
  "open_append path w =
     (if dirname path \<noteq> [] \<and> \<not> path_exists (dirname path) w
      then (Inl (FileNotFoundError path), w)
      else (Inr (), w\<lparr>text_files := (text_files w)(path \<mapsto>
              (case text_files w path of None \<Rightarrow> [] | Some content \<Rightarrow> content))\<rparr>))"

definition file_write :: "string \<Rightarrow> pyval list \<Rightarrow> unit run" where
  "file_write path args w =
     (case args of
        [PStr s] \<Rightarrow>
          (Inr (), w\<lparr>text_files := (text_files w)(path \<mapsto>
              (case text_files w path of None \<Rightarrow> [] | Some content \<Rightarrow> content) @ s)\<rparr>)
      | _ \<Rightarrow> (Inl (TypeError ''write() takes exactly one argument''), w))"

section \<open>\<^verbatim>\<open>Trainer.pretrain_generator\<close>\<close>

text \<open>
  The content loss of the graph, as a function of the variables and the input batch:
  \<^verbatim>\<open>
  generated_images = g(input_images)
  if self.pass_vgg:
      input_content = vgg.build_graph(input_images)
      generated_content = vgg.build_graph(generated_images)
      content_loss = tf.reduce_mean(tf.abs(input_content - generated_content))
  else:
      content_loss = tf.reduce_mean(tf.abs(input_images - generated_images))
  \<close>
\<close>

definition content_loss :: "trainer \<Rightarrow> env \<Rightarrow> store \<Rightarrow> batch \<Rightarrow> real" where
  "content_loss self e vars input_images =
     (let generated_images = generator e vars input_images
      in if pass_vgg self then
           (let input_content = vgg e vars input_images;
                generated_content = vgg e vars generated_images
            in reduce_mean (tf_abs (tf_sub input_content generated_content)))
         else reduce_mean (tf_abs (tf_sub (flatten input_images) (flatten generated_images))))"

text \<open>\<^verbatim>\<open>sess.run([train_op, content_loss])\<close> with
  \<^verbatim>\<open>train_op = opt.minimize(content_loss, var_list=g.to_save_vars)\<close>: one batch is
  fetched, its loss is computed and the training operation runs on it.\<close>

definition run_train_op :: "trainer \<Rightarrow> env \<Rightarrow> dataset \<Rightarrow> real run" where
  "run_train_op self e ds =
     seq (get_next e ds) (\<lambda>input_images.
     seq (\<lambda>w. returns (content_loss self e (variables w) input_images) w) (\<lambda>batch_loss.
     seq (minimize e (pretrain_learning_rate self)
            (\<lambda>vars. content_loss self e vars input_images) (g_to_save_vars e)) (\<lambda>_.
     returns batch_loss)))"

text \<open>\<^verbatim>\<open>sess.run(generated_images, {input_images: real_batch})\<close>: the input is fed, the
  iterator does not move.\<close>

definition run_generated_images :: "env \<Rightarrow> batch \<Rightarrow> batch run" where
  "run_generated_images e real_batch w = returns (generator e (variables w) real_batch) w"

text \<open>
  Lines 149 to 154:
  \<^verbatim>\<open>
  self.logger.info("Loading previous checkpoints...")
  try:
      g.load(sess, self.save_dir, self.pretrain_generator_name)
      self.logger.info(f"Successfully loaded {self.pretrain_generator_name}...")
  except ValueError:
      self.logger.info(f"{self.pretrain_generator_name} checkpoints not found, start from scratch...")
  \<close>
\<close>

definition load_previous_checkpoints :: "trainer \<Rightarrow> env \<Rightarrow> unit run" where
  "load_previous_checkpoints self e =
     seq (logger_info ''Loading previous checkpoints...'') (\<lambda>_.
     try_except_ValueError
       (seq (generator_load e (save_dir self) (pretrain_generator_name self)) (\<lambda>_.
        logger_info (''Successfully loaded '' @ pretrain_generator_name self @ ''...'')))
       (logger_info (pretrain_generator_name self
          @ '' checkpoints not found, start from scratch...'')))"

text \<open>
  Lines 156 to 159:
  \<^verbatim>\<open>
  self.logger.info(f"Sampling {self.sample_size} images for tracking generator's performance...")
  real_batches = []
  for _ in range(int(self.sample_size / self.batch_size)):
      real_batches.append(sess.run(input_images))
  \<close>
\<close>

definition sample_real_batches :: "trainer \<Rightarrow> env \<Rightarrow> dataset \<Rightarrow> batch list run" where
  "sample_real_batches self e ds =
     seq (logger_info (''Sampling '' @ str_int (sample_size self)
            @ '' images for tracking generator's performance...'')) (\<lambda>_.
     seq (int_truediv (sample_size self) (batch_size self)) (\<lambda>n.
     collect (range_py n) (\<lambda>_. get_next e ds)))"

text \<open>
  Lines 185 and 186:
  \<^verbatim>\<open>
  with open("result/batch_losses.tsv", "a") as f:
      f.write(step, '\t', batch_loss + '\n')
  \<close>
  The arguments are evaluated before the call.
\<close>

definition write_batch_loss :: "int \<Rightarrow> real \<Rightarrow> unit run" where
  "write_batch_loss step batch_loss =
     seq (open_append ''result/batch_losses.tsv'') (\<lambda>_.
     seq (lift (py_add (PFloat batch_loss) (PStr [CHR 0x0A]))) (\<lambda>line.
     file_write ''result/batch_losses.tsv'' [PInt step, PStr [CHR 0x09], line]))"

text \<open>
  Lines 171 to 186, the body of \<^verbatim>\<open>if step and step % self.pretrain_reporting_steps == 0\<close>:
  \<^verbatim>\<open>
  fake_batches = []
  for real_batch in real_batches:
      fake_batches.append(sess.run(generated_images, {input_images: real_batch}))
  g.save(sess, self.save_dir, self.pretrain_generator_name)
  self._save_generated_images(
      np.clip(np.concatenate(fake_batches, axis=0), 0, 1),
      image_name=f"generated_images_at_step_{step}.png")
  self.logger.info(
      "[Step {step}] batch_loss: {:.3f}, {} elapsed".format(batch_loss, datetime.utcnow() - start))
  with open("result/batch_losses.tsv", "a") as f:
      f.write(step, '\t', batch_loss + '\n')
  \<close>
\<close>

definition report :: "trainer \<Rightarrow> env \<Rightarrow> batch list \<Rightarrow> real \<Rightarrow> int \<Rightarrow> real \<Rightarrow> unit run" where
  "report self e real_batches start step batch_loss =
     seq (collect real_batches (run_generated_images e)) (\<lambda>fake_batches.
     seq (generator_save e (save_dir self) (pretrain_generator_name self)) (\<lambda>_.
     seq (np_concatenate fake_batches) (\<lambda>generated.
     seq (save_generated_images (np_clip generated 0 1) ''result''
            (Some (''generated_images_at_step_'' @ str_int step @ ''.png'')) 8) (\<lambda>_.
     seq utcnow (\<lambda>now.
     seq (lift (str_format (format_value e)
            [Lit ''[Step '', Named ''step'' [], Lit ''] batch_loss: '', Auto ''.3f'',
             Lit '', '', Auto [], Lit '' elapsed'']
            [PFloat batch_loss, PTimedelta (now - start)] [])) (\<lambda>message.
     seq (logger_info message) (\<lambda>_.
     write_batch_loss step batch_loss)))))))"

text \<open>
  Lines 167 to 186, one round of \<^verbatim>\<open>for step in range(self.pretrain_num_steps)\<close>. The
  list \<^verbatim>\<open>batch_losses\<close> is only appended to and never read, so it is left out. In
  \<^verbatim>\<open>step and step % n == 0\<close> the remainder is not computed when \<open>step\<close> is 0.
\<close>

definition reporting_due :: "trainer \<Rightarrow> int \<Rightarrow> bool run" where
  "reporting_due self step =
     (if step = 0 then returns False
      else seq (pymod step (pretrain_reporting_steps self)) (\<lambda>r. returns (r = 0)))"

definition pretrain_step ::
    "trainer \<Rightarrow> env \<Rightarrow> dataset \<Rightarrow> batch list \<Rightarrow> real \<Rightarrow> int \<Rightarrow> unit run" where
  "pretrain_step self e ds real_batches start step =
     seq (run_train_op self e ds) (\<lambda>batch_loss.
     seq (reporting_due self step) (\<lambda>due.
     if due then report self e real_batches start step batch_loss
     else returns ()))"

text \<open>
  Lines 156 to 186: the sampling of the fixed batches, the export of the baseline grid
  and the training loop.
  \<^verbatim>\<open>
  self._save_generated_images(
      np.clip(np.concatenate(real_batches, axis=0), 0, 1),
      image_name='sample_images.png')
  for step in range(self.pretrain_num_steps):
      ...
  \<close>
\<close>

definition sample_and_train :: "trainer \<Rightarrow> env \<Rightarrow> dataset \<Rightarrow> real \<Rightarrow> unit run" where
  "sample_and_train self e ds start =
     seq (sample_real_batches self e ds) (\<lambda>real_batches.
     seq (np_concatenate real_batches) (\<lambda>sample.
     seq (save_generated_images (np_clip sample 0 1) ''result''
            (Some ''sample_images.png'') 8) (\<lambda>_.
     for_each (range_py (pretrain_num_steps self))
       (pretrain_step self e ds real_batches start))))"

text \<open>The method as a whole (lines 112 to 186).\<close>

definition pretrain_generator :: "trainer \<Rightarrow> env \<Rightarrow> unit run" where
  "pretrain_generator self e =
     seq (logger_info (''Pretraining generator with '' @ str_int (pretrain_num_steps self)
            @ '' steps, batch size: '' @ str_int (batch_size self) @ ''...'')) (\<lambda>_.
     seq (logger_info (''Building '' @ dataset_name self @ '' with domain ''
            @ source_domain self @ ''...'')) (\<lambda>_.
     seq (get_dataset self e (dataset_name self) (source_domain self) ''train''
            (batch_size self)) (\<lambda>ds.
     seq (logger_info ''Initializing generator...'') (\<lambda>_.
     seq (logger_info (if pass_vgg self
            then ''Initializing VGG for computing content loss...''
            else ''Defining content loss without VGG...'')) (\<lambda>_.
     seq (logger_info ''Setting up optimizer to update generator's parameters...'') (\<lambda>_.
     seq (logger_info ''Start training...'') (\<lambda>_.
     seq utcnow (\<lambda>start.
     seq (global_variables_initializer e) (\<lambda>_.
     seq (iterator_initializer ds) (\<lambda>_.
     seq (load_previous_checkpoints self e) (\<lambda>_.
     sample_and_train self e ds start)))))))))))"

section \<open>The loss graph of \<^verbatim>\<open>Trainer.train_gan\<close>\<close>

text \<open>
  Lines 204 to 227, as functions of the variables and the three input batches:
  \<^verbatim>\<open>
  generated_b = g(input_a)
  d_real_out = d.build_graph(input_b)
  d_fake_out = d.build_graph(generated_b, reuse=True)
  d_smooth_out = d.build_graph(input_b_smooth, reuse=True)
  v_real_out = vgg.build_graph(input_a)
  v_fake_out = vgg.build_graph(generated_b)
  content_loss = tf.reduce_mean(tf.abs(v_real_out - v_fake_out))
  d_real_loss = tf.reduce_mean(tf.losses.sigmoid_cross_entropy(tf.ones_like(d_real_out), d_real_out))
  d_fake_loss = tf.reduce_mean(tf.losses.sigmoid_cross_entropy(tf.zeros_like(d_fake_out), d_fake_out))
  d_smooth_loss = tf.reduce_mean(tf.losses.sigmoid_cross_entropy(tf.zeros_like(d_smooth_out), d_smooth_out))
  d_loss = d_real_loss + d_fake_loss + d_smooth_loss
  g_adversarial_loss = tf.reduce_mean(tf.losses.sigmoid_cross_entropy(tf.ones_like(d_fake_out), d_fake_out))
  g_loss = g_adversarial_loss + 10 * content_loss
  \<close>
  \<^verbatim>\<open>tf.losses.sigmoid_cross_entropy\<close> is already a scalar, of which
  \<^verbatim>\<open>tf.reduce_mean\<close> is the mean of one value. The session loop of \<^verbatim>\<open>train_gan\<close> is
  not needed below.
\<close>

record gan_losses =
  d_loss :: real
  g_adversarial_loss :: real
  gan_content_loss :: real
  g_loss :: real

definition train_gan_losses :: "env \<Rightarrow> store \<Rightarrow> batch \<Rightarrow> batch \<Rightarrow> batch \<Rightarrow> gan_losses" where
  "train_gan_losses e vars input_a input_b input_b_smooth =
     (let generated_b = generator e vars input_a;
          d_real_out = discriminator e vars input_b;
          d_fake_out = discriminator e vars generated_b;
          d_smooth_out = discriminator e vars input_b_smooth;
          v_real_out = vgg e vars input_a;
          v_fake_out = vgg e vars generated_b;
          content_loss' = reduce_mean (tf_abs (tf_sub v_real_out v_fake_out));
          d_real_loss = reduce_mean [sigmoid_cross_entropy (ones_like d_real_out) d_real_out];
          d_fake_loss = reduce_mean [sigmoid_cross_entropy (zeros_like d_fake_out) d_fake_out];
          d_smooth_loss =
            reduce_mean [sigmoid_cross_entropy (zeros_like d_smooth_out) d_smooth_out];
          d_loss' = d_real_loss + d_fake_loss + d_smooth_loss;
          g_adversarial_loss' =
            reduce_mean [sigmoid_cross_entropy (ones_like d_fake_out) d_fake_out];
          g_loss' = g_adversarial_loss' + 10 * content_loss'
      in \<lparr>d_loss = d_loss', g_adversarial_loss = g_adversarial_loss',
          gan_content_loss = content_loss', g_loss = g_loss'\<rparr>)"

text \<open>
  The generator's total loss in the words of the specification: the cross-entropy of a
  predicted probability \<open>p\<close> against a label \<open>z\<close> is \<open>- z ln p - (1 - z) ln (1 - p)\<close>,
  the discriminator's probability is the sigmoid of its output; the adversarial loss is
  the mean of that cross-entropy against the label 1 over the discriminator's outputs
  on the generated images; the content loss is the mean absolute difference of the two
  embeddings.
\<close>

definition sigmoid :: "real \<Rightarrow> real" where
  "sigmoid x = 1 / (1 + exp (- x))"

definition cross_entropy :: "real \<Rightarrow> real \<Rightarrow> real" where
  "cross_entropy z p = - z * ln p - (1 - z) * ln (1 - p)"

definition spec_adversarial_loss :: "tensor \<Rightarrow> real" where
  "spec_adversarial_loss logits =
     (\<Sum>i<length logits. cross_entropy 1 (sigmoid (logits ! i))) / real (length logits)"

definition spec_content_loss :: "tensor \<Rightarrow> tensor \<Rightarrow> real" where
  "spec_content_loss a b = (\<Sum>i<length a. \<bar>a ! i - b ! i\<bar>) / real (length a)"

definition spec_generator_loss :: "env \<Rightarrow> store \<Rightarrow> batch \<Rightarrow> real" where
  "spec_generator_loss e vars input_a =
     spec_adversarial_loss (discriminator e vars (generator e vars input_a))
     + 10 * spec_content_loss (vgg e vars input_a) (vgg e vars (generator e vars input_a))"

section \<open>Shapes, ranges and the contracts of the runtime\<close>

definition image_shape :: "nat \<Rightarrow> nat \<Rightarrow> nat \<Rightarrow> 'a list list list \<Rightarrow> bool" where
  "image_shape h w c img =
     (length img = h \<and> (\<forall>row\<in>set img. length row = w \<and> (\<forall>px\<in>set row. length px = c)))"

definition batch_shape :: "nat \<Rightarrow> nat \<Rightarrow> nat \<Rightarrow> nat \<Rightarrow> batch \<Rightarrow> bool" where
  "batch_shape n h w c b = (length b = n \<and> (\<forall>img\<in>set b. image_shape h w c img))"

definition pixels_within :: "real \<Rightarrow> real \<Rightarrow> batch \<Rightarrow> bool" where
  "pixels_within lo hi b = (\<forall>img\<in>set b. \<forall>v\<in>set (pixels img). lo \<le> v \<and> v \<le> hi)"

text \<open>
  \<^verbatim>\<open>tf.image.decode_jpeg(x, channels=3)\<close> yields a non-empty image of three channels;
  \<^verbatim>\<open>tf.image.resize_images(x, [h, w])\<close> of such an image yields \<open>h\<close> rows of \<open>w\<close>
  pixels with the channels of \<open>x\<close>, each value an interpolation of values of \<open>x\<close> and so
  between 0 and 255.
\<close>

definition decoded :: "nat \<Rightarrow> 8 word list list list \<Rightarrow> bool" where
  "decoded c x = (x \<noteq> [] \<and> (\<forall>row\<in>set x. row \<noteq> [] \<and> (\<forall>px\<in>set row. length px = c)))"

definition decode_contract :: "env \<Rightarrow> bool" where
  "decode_contract e = (\<forall>contents. decoded 3 (decode_jpeg e contents 3))"

definition resize_contract :: "env \<Rightarrow> bool" where
  "resize_contract e =
     (\<forall>x h w c. 0 < h \<and> 0 < w \<and> decoded c x \<longrightarrow>
        image_shape (nat h) (nat w) c (resize_images e x h w)
        \<and> (\<forall>v\<in>set (pixels (resize_images e x h w)). 0 \<le> v \<and> v \<le> 255))"

section \<open>Derived notions used in the statements\<close>

text \<open>The rows line 81 computes for a batch of \<open>n\<close> images and 8 images per row.\<close>

definition num_rows_of :: "nat \<Rightarrow> int" where
  "num_rows_of n = (if int n \<ge> 8 then int n div 8 else 1)"

text \<open>The subplot the loop of \<^verbatim>\<open>_save_generated_images\<close> leaves for image \<open>i\<close>.\<close>

definition drawn :: "batch \<Rightarrow> int \<Rightarrow> int \<Rightarrow> nat \<Rightarrow> subplot" where
  "drawn batch_x rows cols i =
     \<lparr>grid_rows = rows, grid_cols = cols, position = int i + 1,
      shown = Some (batch_x ! i), axis_on = False\<rparr>"

definition draw_body :: "batch \<Rightarrow> nat \<Rightarrow> int \<Rightarrow> int \<Rightarrow> nat \<Rightarrow> unit run" where
  "draw_body batch_x fig rows cols = (\<lambda>i.
     seq (add_subplot fig rows cols (int i + 1)) (\<lambda>_.
     seq (plt_imshow fig (batch_x ! i)) (\<lambda>_. plt_axis_off fig)))"

text \<open>The figure of a whole batch, and the figure that stays open when the grid is too
  small: only the subplots that fit have been added.\<close>

definition grid_figure :: "batch \<Rightarrow> figure" where
  "grid_figure batch_x =
     \<lparr>figsize = (8, 6),
      subplots = map (drawn batch_x (num_rows_of (length batch_x)) 8) [0..<length batch_x]\<rparr>"

definition leaked_figure :: "batch \<Rightarrow> figure" where
  "leaked_figure batch_x =
     \<lparr>figsize = (8, 6),
      subplots = map (drawn batch_x (num_rows_of (length batch_x)) 8)
                   [0..<nat (num_rows_of (length batch_x) * 8)]\<rparr>"

definition after_export :: "batch \<Rightarrow> string \<Rightarrow> string option \<Rightarrow> world \<Rightarrow> world" where
  "after_export batch_x directory image_name w =
     (case image_name of
        None \<Rightarrow> w
      | Some name \<Rightarrow>
          w\<lparr>directories := (if directory \<in> set (directories w) then directories w
                             else directories w @ [directory]),
            events := events w @ [SavedFigure (path_join directory name) (grid_figure batch_x)]\<rparr>)"

text \<open>The data set line 120 builds, the messages logged before the session starts its
  work, and the world after both initializers have run (lines 113 to 147).\<close>

definition train_dataset :: "trainer \<Rightarrow> env \<Rightarrow> dataset" where
  "train_dataset self e =
     \<lparr>ds_files = glob e (path_join (path_join (path_join ''datasets'' (dataset_name self))
                             (''train'' @ source_domain self)) ''*''),
      ds_map = image_processing self e,
      ds_batch = batch_size self\<rparr>"

definition startup_log :: "trainer \<Rightarrow> env \<Rightarrow> string list" where
  "startup_log self e =
     [''Pretraining generator with '' @ str_int (pretrain_num_steps self)
        @ '' steps, batch size: '' @ str_int (batch_size self) @ ''...'',
      ''Building '' @ dataset_name self @ '' with domain '' @ source_domain self @ ''...'',
      str_int (int (length (ds_files (train_dataset self e)))) @ '' domain''
        @ source_domain self @ '' images available in '' @ ''train'' @ source_domain self
        @ '' folder.'',
      ''Initializing generator...'',
      (if pass_vgg self then ''Initializing VGG for computing content loss...''
       else ''Defining content loss without VGG...''),
      ''Setting up optimizer to update generator's parameters...'',
      ''Start training...'']"

definition session_started :: "trainer \<Rightarrow> env \<Rightarrow> world \<Rightarrow> world" where
  "session_started self e w =
     w\<lparr>log_records := log_records w @ startup_log self e,
       variables := initial_values e,
       batches_fetched := 0\<rparr>"

text \<open>The batch the iterator delivers at its \<open>k\<close>-th evaluation.\<close>

definition batch_at :: "env \<Rightarrow> dataset \<Rightarrow> nat \<Rightarrow> batch" where
  "batch_at e ds k =
     map (element_at e ds) [k * nat (ds_batch ds)..<k * nat (ds_batch ds) + nat (ds_batch ds)]"

text \<open>The next \<open>S div B\<close> batches of the iterator of the training data set, counted from
  the batches already fetched.\<close>

definition next_sample_batches :: "trainer \<Rightarrow> env \<Rightarrow> world \<Rightarrow> batch list" where
  "next_sample_batches self e w =
     map (batch_at e (train_dataset self e))
       [batches_fetched w..<
        batches_fetched w + nat (sample_size self div batch_size self)]"

text \<open>A statement keeps a relation between the world before and the world after,
  whether it returns or raises.\<close>

definition keeps :: "(world \<Rightarrow> world \<Rightarrow> bool) \<Rightarrow> 'a run \<Rightarrow> bool" where
  "keeps R m = (\<forall>w. R w (snd (m w)))"

definition same_outside :: "string set \<Rightarrow> world \<Rightarrow> world \<Rightarrow> bool" where
  "same_outside vs w w' = (\<forall>v. v \<notin> vs \<longrightarrow> variables w' v = variables w v)"

definition same_files :: "world \<Rightarrow> world \<Rightarrow> bool" where
  "same_files w w' = (text_files w' = text_files w)"

section \<open>A toy run\<close>

text \<open>A process that has just started, and the toy scenario: four one-pixel images in
  the source domain, batch size 2, four steps, a report every second step, a generator
  that returns its input.\<close>

definition fresh_world :: world where
  "fresh_world =
     \<lparr>log_records = [], variables = (\<lambda>_. []),
      batches_fetched = 0, figures = [], directories = [], checkpoints = Map.empty,
      text_files = Map.empty, events = [], clock = 0\<rparr>"

definition toy_env :: env where
  "toy_env =
     \<lparr>glob = (\<lambda>_. [''a.jpg'', ''b.jpg'', ''c.jpg'', ''d.jpg'']),
      read_file = (\<lambda>name. name),
      decode_jpeg = (\<lambda>_ _. [[[0, 128, 255]]]),
      resize_images = (\<lambda>x h w. replicate (nat h) (replicate (nat w)
                         (map (\<lambda>v. real (unat v)) (hd (hd x))))),
      shuffle_order = (\<lambda>k. k),
      generator = (\<lambda>vars x. x),
      discriminator = (\<lambda>vars x. map (\<lambda>_. 0) x),
      vgg = (\<lambda>vars x. flatten x),
      g_to_save_vars = [''generator/kernel''],
      d_to_save_vars = [''discriminator/kernel''],
      initial_values = (\<lambda>v. if v = ''beta1_power'' then [9 / 10]
                            else if v = ''beta2_power'' then [999 / 1000] else [0]),
      adam = (\<lambda>rate loss var_list vars v. map (\<lambda>x. x - rate) (vars v)),
      format_value = (\<lambda>spec v. ''?'')\<rparr>"

definition toy_trainer :: trainer where
  "toy_trainer =
     \<lparr>dataset_name = ''toy'', source_domain = ''A'', target_domain = ''B'',
      input_size = 1, batch_size = 2, sample_size = 4, save_dir = ''ckpts'',
      pass_vgg = False, pretrain_learning_rate = 1 / 100000,
      pretrain_num_steps = 4, pretrain_reporting_steps = 2,
      pretrain_generator_name = ''pretrain_generator''\<rparr>"

section \<open>The quotient through a double\<close>

text \<open>Below \<open>2 ^ 53\<close> the rounding never reaches the next integer: \<^verbatim>\<open>int(a / b)\<close> is the
  exact quotient, truncated.\<close>

lemma div_scaled: 
  fixes a b :: int
  assumes "0 < b"
  shows "a * 2 ^ k div b div 2 ^ k = a div b"
proof -
  have "a * 2 ^ k div b div 2 ^ k = a * 2 ^ k div (b * 2 ^ k)"
    by (simp add: zdiv_zmult2_eq)
  also have "\<dots> = a div b" by simp
  finally show ?thesis .
qed

lemma succ_div_same:
  fixes q m :: int
  assumes "0 < m" "\<not> m dvd q + 1"
  shows "(q + 1) div m = q div m"
proof -
  have r: "0 \<le> q mod m" "q mod m < m" using assms(1) by simp_all
  have "q mod m \<noteq> m - 1"
  proof
    assume "q mod m = m - 1"
    then have "q + 1 = m * (q div m) + m"
      using mult_div_mod_eq [of m q] by simp
    then have "q + 1 = m * (q div m + 1)" by (simp add: algebra_simps)
    then have "m dvd q + 1" by (metis dvd_triv_left)
    with assms(2) show False by simp
  qed
  with r have small: "q mod m + 1 < m" by simp
  have "q + 1 = m * (q div m) + (q mod m + 1)"
    using mult_div_mod_eq [of m q] by simp
  then show ?thesis
    using r(1) small by (metis add_nonneg_nonneg int_div_pos_eq zero_le_one)
qed

lemma round_half_even_cases:
  "round_half_even n m = n div m
   \<or> (round_half_even n m = n div m + 1 \<and> m \<le> 2 * (n mod m))"
  by (auto simp: round_half_even_def Let_def)

lemma rounded_mantissa_truncates:
  fixes a b :: int
  assumes "0 < a" "0 < b" "a < 2 ^ 53" "2 ^ 52 \<le> a * 2 ^ k div b"
  shows "round_half_even (a * 2 ^ k) b div 2 ^ k = a div b"
proof -
  let ?n = "a * 2 ^ k"
  let ?q = "?n div b"
  let ?r = "?n mod b"
  have base: "?q div 2 ^ k = a div b" using assms(2) by (rule div_scaled)
  from round_half_even_cases [of ?n b] show ?thesis
  proof
    assume "round_half_even ?n b = ?q"
    with base show ?thesis by simp
  next
    assume up: "round_half_even ?n b = ?q + 1 \<and> b \<le> 2 * ?r"
    have r: "0 \<le> ?r" "?r < b" using assms(2) by simp_all
    have nd: "\<not> 2 ^ k dvd ?q + 1"
    proof
      assume "(2::int) ^ k dvd ?q + 1"
      then obtain t where t: "?q + 1 = 2 ^ k * t" by (auto simp: dvd_def)
      have n: "?n = b * ?q + ?r" by simp
      from t have "?q = 2 ^ k * t - 1" by simp
      with n have "?n = b * (2 ^ k * t - 1) + ?r" by simp
      then have eq: "2 ^ k * (b * t - a) = b - ?r" by (simp add: algebra_simps)
      have pos: "0 < b - ?r" using r by simp
      with eq have "0 < (2::int) ^ k * (b * t - a)" by simp
      then have "0 < b * t - a" by (simp add: zero_less_mult_iff)
      then have "(2::int) ^ k \<le> 2 ^ k * (b * t - a)" by simp
      with eq have "(2::int) ^ k \<le> b - ?r" by simp
      with up have k2: "2 * 2 ^ k \<le> b" by simp
      have "2 ^ 52 * b \<le> ?q * b" using assms(2,4) by simp
      moreover have "?q * b + ?r = ?n" by simp
      ultimately have "2 ^ 52 * b \<le> a * 2 ^ k" using r(1) by linarith
      moreover have "2 ^ 52 * (2 * 2 ^ k) \<le> 2 ^ 52 * b"
        using k2 by (rule mult_left_mono) simp
      ultimately have "2 ^ 52 * (2 * 2 ^ k) \<le> a * (2::int) ^ k" by (rule order_trans [rotated])
      then have "2 ^ 53 * 2 ^ k \<le> a * (2::int) ^ k" by simp
      then have "2 ^ 53 \<le> a" by (simp only: mult_le_cancel_right) simp
      with assms(3) show False by simp
    qed
    have "(?q + 1) div 2 ^ k = ?q div 2 ^ k"
      by (rule succ_div_same) (simp_all add: nd)
    with up base show ?thesis by simp
  qed
qed

lemma truncated_double_quotient_exact:
  assumes "0 < a" "a < 2 ^ 53" "0 < b"
  shows "truncated_double_quotient a b = a div b"
proof -
  let ?la = "bitlen a" and ?lb = "bitlen b"
  let ?s0 = "53 - (?la - ?lb)"
  from bitlen_bounds [OF assms(1)] have a1: "2 ^ nat (?la - 1) \<le> a" and a2: "a < 2 ^ nat ?la"
    by simp_all
  from bitlen_bounds [OF assms(3)] have b2: "b < 2 ^ nat ?lb" by simp
  have la1: "1 \<le> ?la" using assms(1) by (simp add: bitlen_alt_def)
  have lb1: "1 \<le> ?lb" using assms(3) by (simp add: bitlen_alt_def)
  have "(2::int) ^ nat (?la - 1) < 2 ^ 53" using a1 assms(2) by (rule le_less_trans)
  then have "nat (?la - 1) < 53" by (rule power_less_imp_less_exp [rotated]) simp
  then have la53: "?la \<le> 53" by simp
  have s0: "1 \<le> ?s0" using la53 lb1 by simp
  have "(2::int) ^ 52 * 2 ^ nat ?lb = 2 ^ nat (?la - 1) * 2 ^ nat ?s0"
  proof -
    have "52 + nat ?lb = nat (?la - 1) + nat ?s0" using la1 lb1 s0 by simp
    then have "(2::int) ^ (52 + nat ?lb) = 2 ^ (nat (?la - 1) + nat ?s0)" by simp
    then show ?thesis by (simp only: power_add)
  qed
  with a1 have "(2::int) ^ 52 * 2 ^ nat ?lb \<le> a * 2 ^ nat ?s0" by simp
  moreover have "2 ^ 52 * b \<le> (2::int) ^ 52 * 2 ^ nat ?lb" using b2 by simp
  ultimately have "2 ^ 52 * b \<le> a * 2 ^ nat ?s0" by simp
  then have "2 ^ 52 * b div b \<le> a * 2 ^ nat ?s0 div b" by (rule zdiv_mono1) (rule assms(3))
  then have q0: "2 ^ 52 \<le> a * 2 ^ nat ?s0 div b" using assms(3) by simp
  show ?thesis
  proof (cases "2 ^ 53 \<le> a * 2 ^ nat ?s0 div b")
    case False
    from rounded_mantissa_truncates [OF assms(1,3,2) q0] False s0 show ?thesis
      by (simp add: truncated_double_quotient_def scaled_def Let_def)
  next
    case True
    define k1 where "k1 = nat (?s0 - 1)"
    have k1: "nat ?s0 = Suc k1" using s0 by (simp add: k1_def)
    have "2 ^ 53 * b \<le> a * 2 ^ Suc k1"
    proof -
      have "2 ^ 53 * b \<le> (a * 2 ^ nat ?s0 div b) * b" using True assms(3) by simp
      moreover have "(a * 2 ^ nat ?s0 div b) * b + a * 2 ^ nat ?s0 mod b = a * 2 ^ nat ?s0"
        by simp
      moreover have "0 \<le> a * 2 ^ nat ?s0 mod b" using assms(3) by simp
      ultimately have "2 ^ 53 * b \<le> a * 2 ^ nat ?s0" by linarith
      then show ?thesis by (simp only: k1)
    qed
    then have "2 * (2 ^ 52 * b) \<le> 2 * (a * 2 ^ k1)" by simp
    then have "2 ^ 52 * b \<le> a * 2 ^ k1" by linarith
    then have "2 ^ 52 * b div b \<le> a * 2 ^ k1 div b"
      by (rule zdiv_mono1) (rule assms(3))
    then have q: "2 ^ 52 \<le> a * 2 ^ k1 div b" using assms(3) by simp
    have s: "0 \<le> ?s0 - 1" using s0 by simp
    from rounded_mantissa_truncates [OF assms(1,3,2) q] True s show ?thesis
      by (simp add: truncated_double_quotient_def scaled_def Let_def k1_def)
  qed
qed

lemma int_truediv_exact:
  assumes "\<bar>a\<bar> < 2 ^ 53" "b \<noteq> 0"
  shows "int_truediv a b w = (Inr (sgn a * sgn b * (\<bar>a\<bar> div \<bar>b\<bar>)), w)"
proof (cases "a = 0")
  case True
  with assms show ?thesis by (simp add: int_truediv_def returns_def)
next
  case False
  then have pos: "0 < \<bar>a\<bar>" "0 < \<bar>b\<bar>" using assms(2) by simp_all
  have q: "truncated_double_quotient \<bar>a\<bar> \<bar>b\<bar> = \<bar>a\<bar> div \<bar>b\<bar>"
    using pos(1) assms(1) pos(2) by (rule truncated_double_quotient_exact)
  have "\<bar>a\<bar> div \<bar>b\<bar> \<le> \<bar>a\<bar>"
    using pos(1) by (rule int_div_le_self)
  also have "\<dots> < 2 ^ 53" by (rule assms(1))
  also have "(2::int) ^ 53 < 2 ^ 1024" by simp
  finally have "\<not> 2 ^ 1024 \<le> \<bar>a\<bar> div \<bar>b\<bar>" by simp
  with False assms(2) q show ?thesis
    by (simp add: int_truediv_def returns_def)
qed

lemma seq_int_truediv_exact:
  assumes "\<bar>a\<bar> < 2 ^ 53" "b \<noteq> 0"
  shows "seq (int_truediv a b) f w = f (sgn a * sgn b * (\<bar>a\<bar> div \<bar>b\<bar>)) w"
  by (simp add: seq_def int_truediv_exact [OF assms])


section \<open>Sequencing and loops\<close>

lemma seq_Inr: "m w = (Inr a, w') \<Longrightarrow> seq m f w = f a w'"
  by (simp add: seq_def)

lemma seq_Inl: "m w = (Inl e, w') \<Longrightarrow> seq m f w = (Inl e, w')"
  by (simp add: seq_def)

lemma for_each_append:
  "for_each (xs @ ys) body = seq (for_each xs body) (\<lambda>_. for_each ys body)"
proof (induction xs)
  case Nil
  show ?case by (rule ext) (simp add: seq_def returns_def)
next
  case (Cons x xs)
  show ?case
    by (rule ext) (simp add: Cons seq_def split: prod.splits sum.splits)
qed

section \<open>Facts about the diagnostic export\<close>

lemma update_figure_twice:
  "update_figure fig f (update_figure fig g w) = update_figure fig (\<lambda>x. f (g x)) w"
  by (simp add: update_figure_def comp_def case_prod_beta)

lemma update_figure_id: "update_figure fig (\<lambda>g. g) w = w"
  by (simp add: update_figure_def case_prod_beta)



lemma draw_body_ok:
  assumes "0 < rows" "0 < cols" "int i + 1 \<le> rows * cols"
  shows "draw_body bx fig rows cols i w =
     (Inr (), update_figure fig (\<lambda>g. g\<lparr>subplots := subplots g @ [drawn bx rows cols i]\<rparr>) w)"
  using assms
  by (simp add: draw_body_def seq_def add_subplot_def plt_imshow_def plt_axis_off_def
      update_figure_twice on_current_axes_def drawn_def)

lemma draw_body_fail:
  assumes "0 < rows" "0 < cols" "rows * cols < int i + 1"
  shows "draw_body bx fig rows cols i w =
     (Inl (ValueError (''num must be 1 <= num <= '' @ str_int (rows * cols)
                          @ '', not '' @ str_int (int i + 1))), w)"
  using assms
  by (simp add: draw_body_def seq_def add_subplot_def)

lemma draw_loop_ok:
  assumes "0 < rows" "0 < cols" "\<forall>i\<in>set is. int i + 1 \<le> rows * cols"
  shows "for_each is (draw_body bx fig rows cols) w =
     (Inr (), update_figure fig (\<lambda>g. g\<lparr>subplots := subplots g @ map (drawn bx rows cols) is\<rparr>) w)"
  using assms
proof (induction "is" arbitrary: w)
  case Nil
  then show ?case by (simp add: returns_def update_figure_id)
next
  case (Cons i "is")
  then show ?case
    by (simp add: draw_body_ok seq_def update_figure_twice)
qed

lemma new_figure_number_fresh: "(new_figure_number figs, g) \<notin> set figs"
proof
  assume a: "(new_figure_number figs, g) \<in> set figs"
  then have ne: "figs \<noteq> []" by auto
  from a have "new_figure_number figs \<in> set (map fst figs)" by force
  then have "new_figure_number figs \<le> Max (set (map fst figs))" by simp
  with ne show False by (simp add: new_figure_number_def)
qed

lemma map_other_figures:
  "\<forall>g. (fig, g) \<notin> set figs \<Longrightarrow>
   map (\<lambda>(n, g). if n = fig then (n, f g) else (n, g)) figs = figs"
  by (induction figs) auto

lemma filter_other_figures:
  "\<forall>g. (fig, g) \<notin> set figs \<Longrightarrow> filter (\<lambda>(n, g). n \<noteq> fig) figs = figs"
  by (induction figs) auto

lemma map_of_fresh_figure:
  "\<forall>g. (fig, g) \<notin> set figs \<Longrightarrow> map_of (figs @ [(fig, g0)]) fig = Some g0"
  by (induction figs) auto




lemma num_rows_of_pos: "0 < num_rows_of n"
  by (simp add: num_rows_of_def pos_imp_zdiv_pos_iff)

lemma grid_fits:
  assumes "n < 8 \<or> 8 dvd n" "i < n"
  shows "int i + 1 \<le> num_rows_of n * 8"
proof (cases "n < 8")
  case True
  with assms show ?thesis by (simp add: num_rows_of_def)
next
  case False
  with assms have "8 dvd n" by simp
  then obtain k where "n = 8 * k" by (auto simp: dvd_def)
  with assms False show ?thesis by (simp add: num_rows_of_def)
qed

lemma save_generated_images_ok:
  assumes "length bx < 8 \<or> 8 dvd length bx"
  shows "save_generated_images bx dir name 8 w = (Inr (), after_export bx dir name w)"
proof -
  let ?n = "length bx"
  let ?num = "new_figure_number (figures w)"
  let ?w1 = "w\<lparr>figures := figures w @ [(?num, \<lparr>figsize = (8, 6), subplots = []\<rparr>)]\<rparr>"
  let ?w2 = "w\<lparr>figures := figures w @ [(?num, grid_figure bx)]\<rparr>"
  have fresh: "\<forall>g. (?num, g) \<notin> set (figures w)"
    by (simp add: new_figure_number_fresh)
  have rows: "\<And>f. seq (if int ?n \<ge> 8 then floordiv (int ?n) 8 else returns 1) f w
      = f (num_rows_of ?n) w"
    by (simp add: seq_def floordiv_def returns_def num_rows_of_def)
  have fig: "\<And>f. seq (plt_figure (8, 6)) f w = f ?num ?w1"
    by (simp add: seq_def plt_figure_def Let_def)
  have "for_each [0..<?n] (draw_body bx ?num (num_rows_of ?n) 8) ?w1 =
     (Inr (), update_figure ?num (\<lambda>g. g\<lparr>subplots := subplots g @
         map (drawn bx (num_rows_of ?n) 8) [0..<?n]\<rparr>) ?w1)"
    by (rule draw_loop_ok) (use assms in \<open>auto simp: num_rows_of_pos grid_fits\<close>)
  also have "update_figure ?num (\<lambda>g. g\<lparr>subplots := subplots g @
         map (drawn bx (num_rows_of ?n) 8) [0..<?n]\<rparr>) ?w1 = ?w2"
    using fresh by (simp add: update_figure_def map_other_figures grid_figure_def)
  finally have "for_each [0..<?n] (draw_body bx ?num (num_rows_of ?n) 8) ?w1 = (Inr (), ?w2)" .
  then have loop: "\<And>f. seq (for_each [0..<?n] (draw_body bx ?num (num_rows_of ?n) 8)) f ?w1
      = f () ?w2"
    by (simp add: seq_def)
  have close: "\<And>v. figures v = figures ?w2 \<Longrightarrow> plt_close ?num v = (Inr (), v\<lparr>figures := figures w\<rparr>)"
    using fresh by (simp add: plt_close_def filter_other_figures)
  have save: "\<And>v p. figures v = figures ?w2 \<Longrightarrow>
      plt_savefig ?num p v = (Inr (), v\<lparr>events := events v @ [SavedFigure p (grid_figure bx)]\<rparr>)"
    using fresh by (simp add: plt_savefig_def map_of_fresh_figure del: map_of_append)
  show ?thesis
  proof (cases name)
    case None
    show ?thesis
      unfolding save_generated_images_def Let_def draw_body_def [symmetric]
      by (subst rows, subst fig, subst loop)
         (simp add: None returns_def seq_def close after_export_def)
  next
    case (Some nm)
    show ?thesis
      unfolding save_generated_images_def Let_def draw_body_def [symmetric]
      by (subst rows, subst fig, subst loop)
         (simp add: Some returns_def seq_def path_exists_def makedirs_def save close
            after_export_def)
  qed
qed


lemma draw_loop_fail:
  assumes "0 < rows" "0 < cols" "nat (rows * cols) < n"
  shows "for_each [0..<n] (draw_body bx fig rows cols) w =
     (Inl (ValueError (''num must be 1 <= num <= '' @ str_int (rows * cols)
                          @ '', not '' @ str_int (rows * cols + 1))),
      update_figure fig (\<lambda>g. g\<lparr>subplots := subplots g @
         map (drawn bx rows cols) [0..<nat (rows * cols)]\<rparr>) w)"
proof -
  let ?c = "nat (rows * cols)"
  have pos: "0 < rows * cols" using assms by simp
  have "[0..<n] = [0..<?c] @ [?c..<n]"
    using assms(3) by (metis le0 less_imp_le_nat le_Suc_ex upt_add_eq_append)
  then have split: "[0..<n] = [0..<?c] @ ?c # [Suc ?c..<n]"
    using assms(3) by (simp add: upt_conv_Cons)
  have first: "for_each [0..<?c] (draw_body bx fig rows cols) w =
     (Inr (), update_figure fig (\<lambda>g. g\<lparr>subplots := subplots g @
         map (drawn bx rows cols) [0..<?c]\<rparr>) w)"
    by (rule draw_loop_ok) (use assms pos in auto)
  have stop: "\<And>v. draw_body bx fig rows cols ?c v =
     (Inl (ValueError (''num must be 1 <= num <= '' @ str_int (rows * cols)
                          @ '', not '' @ str_int (rows * cols + 1))), v)"
    using draw_body_fail [of rows cols ?c bx fig] assms pos by simp
  show ?thesis
    by (simp add: split for_each_append seq_def first stop del: upt_Suc)
qed

lemma save_generated_images_fail:
  assumes "\<not> (length bx < 8 \<or> 8 dvd length bx)"
  shows "save_generated_images bx dir name 8 w =
     (Inl (ValueError (''num must be 1 <= num <= '' @ str_int (num_rows_of (length bx) * 8)
             @ '', not '' @ str_int (num_rows_of (length bx) * 8 + 1))),
      w\<lparr>figures := figures w @ [(new_figure_number (figures w), leaked_figure bx)]\<rparr>)"
proof -
  let ?n = "length bx"
  let ?num = "new_figure_number (figures w)"
  let ?w1 = "w\<lparr>figures := figures w @ [(?num, \<lparr>figsize = (8, 6), subplots = []\<rparr>)]\<rparr>"
  let ?w2 = "w\<lparr>figures := figures w @ [(?num, leaked_figure bx)]\<rparr>"
  let ?e = "ValueError (''num must be 1 <= num <= '' @ str_int (num_rows_of ?n * 8)
             @ '', not '' @ str_int (num_rows_of ?n * 8 + 1))"
  have fresh: "\<forall>g. (?num, g) \<notin> set (figures w)"
    by (simp add: new_figure_number_fresh)
  have big: "8 \<le> ?n" "\<not> 8 dvd ?n" using assms by auto
  have "?n div 8 * 8 < ?n"
    using big(2) by presburger
  moreover have "nat (int ?n div 8 * 8) = ?n div 8 * 8"
    by (simp add: nat_mult_distrib nat_div_distrib)
  ultimately have cap: "nat (num_rows_of ?n * 8) < ?n"
    using big(1) by (simp add: num_rows_of_def)
  have rows: "\<And>f. seq (if int ?n \<ge> 8 then floordiv (int ?n) 8 else returns 1) f w
      = f (num_rows_of ?n) w"
    by (simp add: seq_def floordiv_def returns_def num_rows_of_def)
  have fig: "\<And>f. seq (plt_figure (8, 6)) f w = f ?num ?w1"
    by (simp add: seq_def plt_figure_def Let_def)
  have "for_each [0..<?n] (draw_body bx ?num (num_rows_of ?n) 8) ?w1 =
     (Inl ?e, update_figure ?num (\<lambda>g. g\<lparr>subplots := subplots g @
         map (drawn bx (num_rows_of ?n) 8) [0..<nat (num_rows_of ?n * 8)]\<rparr>) ?w1)"
    by (rule draw_loop_fail) (use cap in \<open>auto simp: num_rows_of_pos\<close>)
  also have "update_figure ?num (\<lambda>g. g\<lparr>subplots := subplots g @
         map (drawn bx (num_rows_of ?n) 8) [0..<nat (num_rows_of ?n * 8)]\<rparr>) ?w1 = ?w2"
    using fresh by (simp add: update_figure_def map_other_figures leaked_figure_def)
  finally have "for_each [0..<?n] (draw_body bx ?num (num_rows_of ?n) 8) ?w1 = (Inl ?e, ?w2)" .
  then have loop: "\<And>f. seq (for_each [0..<?n] (draw_body bx ?num (num_rows_of ?n) 8)) f ?w1
      = (Inl ?e, ?w2)"
    by (simp add: seq_def)
  show ?thesis
    unfolding save_generated_images_def Let_def draw_body_def [symmetric]
    by (subst rows, subst fig, subst loop) simp
qed


lemma str_int_8: "str_int 8 = ''8''" "str_int 9 = ''9''"
  by (simp_all add: str_int_def str_nat.simps)


section \<open>What a statement leaves unchanged\<close>

lemma keeps_returns: "(\<And>w. R w w) \<Longrightarrow> keeps R (returns a)"
  by (simp add: keeps_def returns_def)

lemma keeps_raises: "(\<And>w. R w w) \<Longrightarrow> keeps R (raises err)"
  by (simp add: keeps_def raises_def)

lemma keeps_lift: "(\<And>w. R w w) \<Longrightarrow> keeps R (lift r)"
  by (simp add: keeps_def lift_def)

lemma keeps_seq:
  assumes "\<And>a b c. R a b \<Longrightarrow> R b c \<Longrightarrow> R a c" "keeps R m" "\<And>a. keeps R (f a)"
  shows "keeps R (seq m f)"
  unfolding keeps_def
proof
  fix w
  obtain r w' where mw: "m w = (r, w')" by (cases "m w")
  from assms(2) mw have 1: "R w w'" by (auto simp: keeps_def dest: spec [of _ w])
  show "R w (snd (seq m f w))"
  proof (cases r)
    case (Inl err)
    with mw 1 show ?thesis by (simp add: seq_def)
  next
    case (Inr a)
    from assms(3) [of a] have "R w' (snd (f a w'))" by (simp add: keeps_def)
    with 1 assms(1) have "R w (snd (f a w'))" by blast
    with mw Inr show ?thesis by (simp add: seq_def)
  qed
qed

lemma keeps_for_each:
  assumes "\<And>w. R w w" "\<And>a b c. R a b \<Longrightarrow> R b c \<Longrightarrow> R a c" "\<And>x. keeps R (body x)"
  shows "keeps R (for_each xs body)"
proof (induction xs)
  case Nil
  show ?case using assms(1) by (simp add: keeps_returns)
next
  case (Cons x xs)
  show ?case
    using assms(2) assms(3) [of x] Cons by (simp add: keeps_seq)
qed

lemma keeps_collect:
  assumes "\<And>w. R w w" "\<And>a b c. R a b \<Longrightarrow> R b c \<Longrightarrow> R a c" "\<And>x. keeps R (body x)"
  shows "keeps R (collect xs body)"
proof (induction xs)
  case Nil
  show ?case using assms(1) by (simp add: keeps_returns)
next
  case (Cons x xs)
  have inner: "keeps R (seq (collect xs body) (\<lambda>ys. returns (y # ys)))" for y
  proof (rule keeps_seq)
    show "\<And>a b c. R a b \<Longrightarrow> R b c \<Longrightarrow> R a c" by (rule assms(2))
    show "keeps R (collect xs body)" by (rule Cons)
    show "\<And>ys. keeps R (returns (y # ys))" by (rule keeps_returns) (rule assms(1))
  qed
  show ?case
    unfolding collect.simps
  proof (rule keeps_seq)
    show "\<And>a b c. R a b \<Longrightarrow> R b c \<Longrightarrow> R a c" by (rule assms(2))
    show "keeps R (body x)" by (rule assms(3))
    show "\<And>y. keeps R (seq (collect xs body) (\<lambda>ys. returns (y # ys)))" by (rule inner)
  qed
qed

lemma keeps_if: "keeps R m \<Longrightarrow> keeps R n \<Longrightarrow> keeps R (if b then m else n)"
  by simp

lemma keeps_try_except:
  assumes "\<And>a b c. R a b \<Longrightarrow> R b c \<Longrightarrow> R a c" "keeps R body" "keeps R handler"
  shows "keeps R (try_except_ValueError body handler)"
  unfolding keeps_def
proof
  fix w
  obtain r w' where bw: "body w = (r, w')" by (cases "body w")
  from assms(2) bw have 1: "R w w'" by (auto simp: keeps_def dest: spec [of _ w])
  from assms(3) have 2: "R w' (snd (handler w'))" by (simp add: keeps_def)
  from 1 2 assms(1) have 3: "R w (snd (handler w'))" by blast
  show "R w (snd (try_except_ValueError body handler w))"
    using bw 1 3 by (auto simp: try_except_ValueError_def split: sum.splits error.splits)
qed

text \<open>The two relations are reflexive and transitive.\<close>

lemma same_outside_refl: "same_outside vs w w"
  by (simp add: same_outside_def)

lemma same_outside_trans:
  "same_outside vs a b \<Longrightarrow> same_outside vs b c \<Longrightarrow> same_outside vs a c"
  by (simp add: same_outside_def)

lemma same_files_refl: "same_files w w"
  by (simp add: same_files_def)

lemma same_files_trans: "same_files a b \<Longrightarrow> same_files b c \<Longrightarrow> same_files a c"
  by (simp add: same_files_def)

text \<open>The export changes figures, directories and events only, whether it returns
  or raises.\<close>

lemma save_generated_images_cases:
  "save_generated_images bx dir name 8 w = (Inr (), after_export bx dir name w)
   \<or> (\<exists>err. save_generated_images bx dir name 8 w =
        (Inl err, w\<lparr>figures := figures w @ [(new_figure_number (figures w), leaked_figure bx)]\<rparr>))"
proof (cases "length bx < 8 \<or> 8 dvd length bx")
  case True
  then show ?thesis by (simp add: save_generated_images_ok)
next
  case False
  then show ?thesis by (simp add: save_generated_images_fail)
qed

lemma save_generated_images_variables:
  "variables (snd (save_generated_images bx dir name 8 w)) = variables w"
  using save_generated_images_cases [of bx dir name w]
  by (auto simp: after_export_def split: option.splits)

lemma save_generated_images_text_files:
  "text_files (snd (save_generated_images bx dir name 8 w)) = text_files w"
  using save_generated_images_cases [of bx dir name w]
  by (auto simp: after_export_def split: option.splits)

lemma keeps_same_outside_prims:
  "keeps (same_outside vs) (logger_info msg)"
  "keeps (same_outside vs) utcnow"
  "keeps (same_outside vs) (get_next e ds)"
  "keeps (same_outside vs) (run_generated_images e rb)"
  "keeps (same_outside vs) (generator_save e d n)"
  "keeps (same_outside vs) (np_concatenate bs)"
  "keeps (same_outside vs) (save_generated_images bx dir name 8)"
  "keeps (same_outside vs) (pymod a b)"
  "keeps (same_outside vs) (open_append p)"
  "keeps (same_outside vs) (file_write p args)"
  "keeps (same_outside vs) (lift r)"
  "keeps (same_outside vs) (returns x)"
  by (auto simp: keeps_def same_outside_def logger_info_def utcnow_def get_next_def Let_def
      run_generated_images_def returns_def raises_def generator_save_def np_concatenate_def
      save_generated_images_variables pymod_def open_append_def file_write_def lift_def
      split: list.splits pyval.splits)

lemma keeps_same_outside_minimize:
  "keeps (same_outside (set var_list \<union> set (adam_variables var_list)))
     (minimize e rate loss var_list)"
  by (simp add: keeps_def same_outside_def minimize_def Let_def adam_variables_def)

lemma keeps_same_files_prims:
  "keeps same_files (logger_info msg)"
  "keeps same_files utcnow"
  "keeps same_files (get_next e ds)"
  "keeps same_files (run_generated_images e rb)"
  "keeps same_files (generator_save e d n)"
  "keeps same_files (generator_load e d n)"
  "keeps same_files (np_concatenate bs)"
  "keeps same_files (save_generated_images bx dir name 8)"
  "keeps same_files (pymod a b)"
  "keeps same_files (int_truediv a b)"
  "keeps same_files (lift r)"
  "keeps same_files (returns x)"
  "keeps same_files (minimize e rate loss var_list)"
  "keeps same_files (global_variables_initializer e)"
  "keeps same_files (iterator_initializer ds)"
  by (auto simp: keeps_def same_files_def logger_info_def utcnow_def get_next_def Let_def
      run_generated_images_def returns_def raises_def generator_save_def generator_load_def
      np_concatenate_def save_generated_images_text_files pymod_def int_truediv_def lift_def
      minimize_def global_variables_initializer_def iterator_initializer_def
      split: prod.splits option.splits)


section \<open>The training loop and the variables\<close>

lemmas keeps_seq_outside = keeps_seq [where R = "same_outside vs", OF same_outside_trans] for vs
lemmas keeps_seq_files = keeps_seq [where R = same_files, OF same_files_trans]
lemmas keeps_collect_outside =
  keeps_collect [where R = "same_outside vs", OF same_outside_refl same_outside_trans] for vs
lemmas keeps_collect_files =
  keeps_collect [where R = same_files, OF same_files_refl same_files_trans]
lemmas keeps_for_each_outside =
  keeps_for_each [where R = "same_outside vs", OF same_outside_refl same_outside_trans] for vs
lemmas keeps_for_each_files =
  keeps_for_each [where R = same_files, OF same_files_refl same_files_trans]

lemma report_format_raises:
  "str_format render
     [Lit a, Named ''step'' [], Lit b, Auto c, Lit d, Auto [], Lit f] args [] =
   Inl (KeyError ''step'')"
  by simp

lemma keeps_same_outside_write_batch_loss:
  "keeps (same_outside vs) (write_batch_loss step batch_loss)"
  unfolding write_batch_loss_def
  by (intro keeps_seq_outside keeps_same_outside_prims)

lemma keeps_same_outside_report:
  "keeps (same_outside vs) (report self e real_batches start step batch_loss)"
  unfolding report_def
  by (intro keeps_seq_outside keeps_same_outside_prims keeps_same_outside_write_batch_loss
      keeps_collect_outside)

lemma keeps_same_outside_reporting_due:
  "keeps (same_outside vs) (reporting_due self step)"
  unfolding reporting_due_def
  by (intro keeps_if keeps_seq_outside keeps_same_outside_prims)

lemma keeps_same_outside_run_train_op:
  "keeps (same_outside (set (g_to_save_vars e)
            \<union> set (adam_variables (g_to_save_vars e))))
     (run_train_op self e ds)"
  unfolding run_train_op_def
proof (intro keeps_seq_outside keeps_same_outside_prims keeps_same_outside_minimize)
  fix input_images
  show "keeps (same_outside (set (g_to_save_vars e)
            \<union> set (adam_variables (g_to_save_vars e))))
          (\<lambda>w. returns (content_loss self e (variables w) input_images) w)"
    by (simp add: keeps_def returns_def same_outside_refl)
qed

lemma keeps_same_outside_pretrain_step:
  "keeps (same_outside (set (g_to_save_vars e)
            \<union> set (adam_variables (g_to_save_vars e))))
     (pretrain_step self e ds real_batches start step)"
  unfolding pretrain_step_def
  by (intro keeps_seq_outside keeps_same_outside_run_train_op keeps_same_outside_reporting_due
      keeps_if keeps_same_outside_report keeps_same_outside_prims)

lemma keeps_same_outside_training_loop:
  "keeps (same_outside (set (g_to_save_vars e)
            \<union> set (adam_variables (g_to_save_vars e))))
     (for_each steps (pretrain_step self e ds real_batches start))"
  by (intro keeps_for_each_outside keeps_same_outside_pretrain_step)


section \<open>The run and the files\<close>

lemmas keeps_try_except_files =
  keeps_try_except [where R = same_files, OF same_files_trans]

lemma keeps_same_files_report:
  "keeps same_files (report self e real_batches start step batch_loss)"
proof -
  have tail: "keeps same_files
     (seq (lift (str_format (format_value e)
            [Lit ''[Step '', Named ''step'' [], Lit ''] batch_loss: '', Auto ''.3f'',
             Lit '', '', Auto [], Lit '' elapsed'']
            [PFloat batch_loss, PTimedelta (now - start)] [])) f)"
    for now and f :: "string \<Rightarrow> unit run"
    by (simp add: keeps_def seq_def lift_def same_files_refl)
  show ?thesis
    unfolding report_def
    by (intro keeps_seq_files keeps_same_files_prims keeps_collect_files tail)
qed

lemma keeps_same_files_pretrain_step:
  "keeps same_files (pretrain_step self e ds real_batches start step)"
proof -
  have 1: "keeps same_files (run_train_op self e ds)"
    unfolding run_train_op_def
  proof (intro keeps_seq_files keeps_same_files_prims)
    fix input_images
    show "keeps same_files (\<lambda>w. returns (content_loss self e (variables w) input_images) w)"
      by (simp add: keeps_def returns_def same_files_refl)
  qed
  have 2: "keeps same_files (reporting_due self step)"
    unfolding reporting_due_def
    by (intro keeps_if keeps_seq_files keeps_same_files_prims)
  show ?thesis
    unfolding pretrain_step_def
    by (intro keeps_seq_files 1 2 keeps_if keeps_same_files_report keeps_same_files_prims)
qed

lemma keeps_same_files_sample_and_train:
  "keeps same_files (sample_and_train self e ds start)"
  unfolding sample_and_train_def sample_real_batches_def
  by (intro keeps_seq_files keeps_same_files_prims keeps_collect_files keeps_for_each_files
      keeps_same_files_pretrain_step)

lemma keeps_same_files_load_previous_checkpoints:
  "keeps same_files (load_previous_checkpoints self e)"
  unfolding load_previous_checkpoints_def
  by (intro keeps_seq_files keeps_same_files_prims keeps_try_except_files)

lemma keeps_same_files_get_dataset:
  "keeps same_files (get_dataset self e a b c d)"
  unfolding get_dataset_def Let_def
  by (intro keeps_seq_files keeps_same_files_prims keeps_if keeps_raises same_files_refl)

lemma keeps_same_files_pretrain_generator:
  "keeps same_files (pretrain_generator self e)"
  unfolding pretrain_generator_def
  by (intro keeps_seq_files keeps_same_files_prims keeps_same_files_get_dataset
      keeps_same_files_load_previous_checkpoints keeps_same_files_sample_and_train)


section \<open>The start of the run and the restore of the checkpoint\<close>

text \<open>Running one statement and going on with the rest.\<close>

lemma seq_assoc: "seq (seq m g) f = seq m (\<lambda>x. seq (g x) f)"
  by (rule ext) (simp add: seq_def split: prod.splits sum.splits)

lemma seq_returns: "seq (returns a) f w = f a w"
  by (simp add: seq_def returns_def)

lemma seq_raises: "seq (raises err) f w = (Inl err, w)"
  by (simp add: seq_def raises_def)

lemma seq_logger_info:
  "seq (logger_info msg) f w = f () (w\<lparr>log_records := log_records w @ [msg]\<rparr>)"
  by (simp add: seq_def logger_info_def)

lemma seq_utcnow: "seq utcnow f w = f (clock w) w"
  by (simp add: seq_def utcnow_def)

lemma seq_global_variables_initializer:
  "seq (global_variables_initializer e) f w = f () (w\<lparr>variables := initial_values e\<rparr>)"
  by (simp add: seq_def global_variables_initializer_def)

lemma seq_iterator_initializer:
  "seq (iterator_initializer ds) f w =
     (if ds_batch ds \<le> 0
      then (Inl (InvalidArgumentError ''Batch size must be greater than zero.''), w)
      else f () (w\<lparr>batches_fetched := 0\<rparr>))"
  by (simp add: seq_def iterator_initializer_def)

lemmas seq_simps = seq_assoc seq_returns seq_raises seq_logger_info seq_utcnow
  seq_global_variables_initializer seq_iterator_initializer

lemma pretrain_generator_started:
  assumes "ds_files (train_dataset self e) \<noteq> []" "0 < batch_size self"
  shows "pretrain_generator self e w =
     seq (load_previous_checkpoints self e)
       (\<lambda>_. sample_and_train self e (train_dataset self e) (clock w))
       (session_started self e w)"
proof -
  have "glob e (path_join (path_join (path_join ''datasets'' (dataset_name self))
          (''train'' @ source_domain self)) ''*'') \<noteq> []"
    using assms(1) by (simp add: train_dataset_def)
  with assms(2) show ?thesis
    by (simp add: pretrain_generator_def get_dataset_def Let_def seq_simps
        train_dataset_def startup_log_def session_started_def)
qed

lemma pretrain_generator_empty_folder:
  assumes "ds_files (train_dataset self e) = []"
  shows "pretrain_generator self e w =
     (Inl (TypeError ''Input filename of ReadFile Op has type float32''),
      w\<lparr>log_records := log_records w @ take 3 (startup_log self e)\<rparr>)"
proof -
  have "glob e (path_join (path_join (path_join ''datasets'' (dataset_name self))
          (''train'' @ source_domain self)) ''*'') = []"
    using assms by (simp add: train_dataset_def)
  then show ?thesis
    by (simp add: pretrain_generator_def get_dataset_def Let_def seq_simps
        train_dataset_def startup_log_def)
qed

lemma pretrain_generator_bad_batch_size:
  assumes "ds_files (train_dataset self e) \<noteq> []" "batch_size self \<le> 0"
  shows "pretrain_generator self e w =
     (Inl (InvalidArgumentError ''Batch size must be greater than zero.''),
      w\<lparr>log_records := log_records w @ startup_log self e,
        variables := initial_values e\<rparr>)"
proof -
  have "glob e (path_join (path_join (path_join ''datasets'' (dataset_name self))
          (''train'' @ source_domain self)) ''*'') \<noteq> []"
    using assms(1) by (simp add: train_dataset_def)
  with assms(2) show ?thesis
    by (simp add: pretrain_generator_def get_dataset_def Let_def seq_simps
        train_dataset_def startup_log_def)
qed

lemma load_previous_checkpoints_missing:
  assumes "checkpoints w (save_dir self, pretrain_generator_name self) = None"
  shows "load_previous_checkpoints self e w =
     (Inr (), w\<lparr>log_records := log_records w @
        [''Loading previous checkpoints...'',
         pretrain_generator_name self @ '' checkpoints not found, start from scratch...'']\<rparr>)"
  using assms
  by (simp add: load_previous_checkpoints_def seq_def logger_info_def
      try_except_ValueError_def generator_load_def)

lemma load_previous_checkpoints_present:
  assumes "checkpoints w (save_dir self, pretrain_generator_name self) = Some saved"
  shows "load_previous_checkpoints self e w =
     (Inr (), w\<lparr>log_records := log_records w @
        [''Loading previous checkpoints...'',
         ''Successfully loaded '' @ pretrain_generator_name self @ ''...''],
        variables := (\<lambda>v. if v \<in> set (g_to_save_vars e) then saved v else variables w v)\<rparr>)"
  using assms
  by (simp add: load_previous_checkpoints_def seq_def logger_info_def
      try_except_ValueError_def generator_load_def cong: if_cong)

lemma load_previous_checkpoints_returns:
  "\<exists>w'. load_previous_checkpoints self e w = (Inr (), w')
        \<and> events w' = events w \<and> batches_fetched w' = batches_fetched w"
proof (cases "checkpoints w (save_dir self, pretrain_generator_name self)")
  case None
  then show ?thesis by (simp add: load_previous_checkpoints_missing)
next
  case (Some saved)
  then show ?thesis by (simp add: load_previous_checkpoints_present)
qed


section \<open>Sampling, the training operation and the report\<close>

lemma get_next_ok:
  assumes "ds_files ds \<noteq> []"
  shows "get_next e ds w =
     (Inr (batch_at e ds (batches_fetched w)), w\<lparr>batches_fetched := batches_fetched w + 1\<rparr>)"
  using assms by (simp add: get_next_def batch_at_def Let_def)

lemma get_next_empty:
  assumes "ds_files ds = []"
  shows "get_next e ds w = (Inl OutOfRangeError, w)"
  using assms by (simp add: get_next_def)

lemma collect_get_next:
  assumes "ds_files ds \<noteq> []"
  shows "collect xs (\<lambda>_. get_next e ds) w =
     (Inr (map (batch_at e ds) [batches_fetched w..<batches_fetched w + length xs]),
      w\<lparr>batches_fetched := batches_fetched w + length xs\<rparr>)"
proof (induction xs arbitrary: w)
  case Nil
  show ?case by (simp add: returns_def)
next
  case (Cons x xs)
  let ?k = "batches_fetched w"
  let ?w1 = "w\<lparr>batches_fetched := ?k + 1\<rparr>"
  have upt: "[?k..<?k + length (x # xs)] = ?k # [?k + 1..<?k + 1 + length xs]"
    by (simp add: upt_conv_Cons del: upt_Suc)
  have "collect (x # xs) (\<lambda>_. get_next e ds) w =
      seq (collect xs (\<lambda>_. get_next e ds)) (\<lambda>ys. returns (batch_at e ds ?k # ys)) ?w1"
    unfolding collect.simps
    by (subst seq_def) (simp only: get_next_ok [OF assms] prod.case sum.case)
  also have "\<dots> = (Inr (batch_at e ds ?k # map (batch_at e ds) [?k + 1..<?k + 1 + length xs]),
      ?w1\<lparr>batches_fetched := ?k + 1 + length xs\<rparr>)"
    by (subst seq_def) (simp add: Cons returns_def)
  finally show ?case
    by (simp only: upt list.map) simp
qed

lemma length_range_py: "length (range_py n) = nat n"
  by (simp add: range_py_def)

lemma sample_real_batches_drawn:
  assumes "ds_files ds \<noteq> []"
    and "\<And>v. int_truediv (sample_size self) (batch_size self) v = (Inr n, v)"
  shows "sample_real_batches self e ds w =
     (Inr (map (batch_at e ds) [batches_fetched w..<batches_fetched w + nat n]),
      w\<lparr>log_records := log_records w @
           [''Sampling '' @ str_int (sample_size self)
              @ '' images for tracking generator's performance...''],
        batches_fetched := batches_fetched w + nat n\<rparr>)"
proof -
  have q: "seq (int_truediv (sample_size self) (batch_size self)) f v = f n v"
    for f :: "int \<Rightarrow> batch list run" and v
    by (simp add: seq_def assms(2))
  show ?thesis
    by (simp add: sample_real_batches_def seq_logger_info q
        collect_get_next [OF assms(1)] length_range_py)
qed

lemma sample_real_batches_ok:
  assumes "ds_files ds \<noteq> []" "0 < batch_size self" "batch_size self \<le> sample_size self"
    and "sample_size self < 2 ^ 53"
  shows "sample_real_batches self e ds w =
     (Inr (map (batch_at e ds)
             [batches_fetched w..<
              batches_fetched w + nat (sample_size self div batch_size self)]),
      w\<lparr>log_records := log_records w @
           [''Sampling '' @ str_int (sample_size self)
              @ '' images for tracking generator's performance...''],
        batches_fetched := batches_fetched w + nat (sample_size self div batch_size self)\<rparr>)"
proof -
  have "\<bar>sample_size self\<bar> < 2 ^ 53" "batch_size self \<noteq> 0"
    using assms(2-4) by simp_all
  from int_truediv_exact [OF this]
  have "int_truediv (sample_size self) (batch_size self) v =
      (Inr (sample_size self div batch_size self), v)" for v
    using assms(2,3) by simp
  then have q: "seq (int_truediv (sample_size self) (batch_size self)) f v =
      f (sample_size self div batch_size self) v" for f :: "int \<Rightarrow> batch list run" and v
    by (simp add: seq_def)
  show ?thesis
    by (simp add: sample_real_batches_def seq_logger_info q
        collect_get_next [OF assms(1)] length_range_py)
qed

lemma length_batch_at: "length (batch_at e ds k) = nat (ds_batch ds)"
  by (simp add: batch_at_def)

lemma length_concat_uniform:
  "\<forall>b\<in>set xs. length b = n \<Longrightarrow> length (concat xs) = length xs * n"
  by (induction xs) auto

lemma length_np_clip: "length (np_clip x lo hi) = length x"
  by (simp add: np_clip_def)

lemma collect_run_generated_images:
  "collect real_batches (run_generated_images e) w =
     (Inr (map (generator e (variables w)) real_batches), w)"
  by (induction real_batches) (simp_all add: returns_def seq_def run_generated_images_def)

lemma run_train_op_ok:
  assumes "ds_files ds \<noteq> []"
  shows "\<exists>loss w'. run_train_op self e ds w = (Inr loss, w')
           \<and> events w' = events w @ [RanTrainOp]"
  by (simp add: run_train_op_def seq_def get_next_ok [OF assms] returns_def minimize_def
      Let_def)

lemma str_int_digit: "str_int 2 = ''2''" "str_int 1 = ''1''" "str_int 0 = ''0''"
  by (simp_all add: str_int_def str_nat.simps)

lemma report_raises:
  assumes "real_batches \<noteq> []" "\<forall>b\<in>set real_batches. length b = n"
    and "\<forall>vars b. length (generator e vars b) = length b"
    and "length real_batches * n < 8 \<or> 8 dvd length real_batches * n"
  shows "\<exists>w'. report self e real_batches start step batch_loss w = (Inl (KeyError ''step''), w')
     \<and> events w' = events w @
         [SavedCheckpoint (save_dir self) (pretrain_generator_name self),
          SavedFigure (''result/generated_images_at_step_'' @ str_int step @ ''.png'')
            (grid_figure (np_clip (concat (map (generator e (variables w)) real_batches)) 0 1))]"
proof -
  let ?fake = "map (generator e (variables w)) real_batches"
  let ?w1 = "w\<lparr>checkpoints := (checkpoints w)((save_dir self, pretrain_generator_name self)
                  \<mapsto> variables w),
               events := events w @
                 [SavedCheckpoint (save_dir self) (pretrain_generator_name self)]\<rparr>"
  have "\<forall>b\<in>set ?fake. length b = n" using assms(2,3) by simp
  then have "length (concat ?fake) = length real_batches * n"
    using length_concat_uniform [of ?fake n] by simp
  with assms(4) have grid: "length (np_clip (concat ?fake) 0 1) < 8
      \<or> 8 dvd length (np_clip (concat ?fake) 0 1)"
    by (simp add: length_np_clip)
  have save: "\<And>f. seq (generator_save e (save_dir self) (pretrain_generator_name self)) f w
      = f () ?w1"
    by (simp add: seq_def generator_save_def)
  have cat: "\<And>f v. seq (np_concatenate ?fake) f v = f (concat ?fake) v"
    using assms(1) by (simp add: np_concatenate_def seq_returns)
  have export: "\<And>f v name. seq (save_generated_images (np_clip (concat ?fake) 0 1) ''result''
       (Some name) 8) f v = f () (after_export (np_clip (concat ?fake) 0 1) ''result'' (Some name) v)"
    by (simp add: seq_def save_generated_images_ok [OF grid])
  have fmt: "\<And>f v now. seq (lift (str_format (format_value e)
            [Lit ''[Step '', Named ''step'' [], Lit ''] batch_loss: '', Auto ''.3f'',
             Lit '', '', Auto [], Lit '' elapsed'']
            [PFloat batch_loss, PTimedelta (now - start)] [])) f v = (Inl (KeyError ''step''), v)"
    by (simp add: seq_def lift_def)
  have "report self e real_batches start step batch_loss w =
      (Inl (KeyError ''step''),
       after_export (np_clip (concat ?fake) 0 1) ''result''
         (Some (''generated_images_at_step_'' @ str_int step @ ''.png'')) ?w1)"
    unfolding report_def
    apply (subst seq_def, subst collect_run_generated_images)
    apply (simp only: prod.case sum.case)
    apply (subst save, subst cat, subst export, subst seq_utcnow, subst fmt)
    apply (rule refl)
    done
  then show ?thesis
    by (simp add: after_export_def path_join_def)
qed


section \<open>Four steps with a report every second step\<close>

lemma reporting_due_every_second:
  assumes "pretrain_reporting_steps self = 2"
  shows "reporting_due self 0 = returns False" "reporting_due self 1 = returns False"
    "reporting_due self 2 = returns True" "reporting_due self 3 = returns False"
  using assms
  by (auto simp: reporting_due_def pymod_def fun_eq_iff seq_returns)

lemma pretrain_step_quiet:
  assumes "ds_files ds \<noteq> []" "reporting_due self step = returns False"
  shows "\<exists>w'. pretrain_step self e ds real_batches start step w = (Inr (), w')
           \<and> events w' = events w @ [RanTrainOp]"
proof -
  from run_train_op_ok [OF assms(1), of self e w] obtain loss w1
    where 1: "run_train_op self e ds w = (Inr loss, w1)"
      and 2: "events w1 = events w @ [RanTrainOp]" by blast
  have "pretrain_step self e ds real_batches start step w = (Inr (), w1)"
    unfolding pretrain_step_def
    by (subst seq_def) (simp add: 1 assms(2) seq_returns returns_def)
  with 2 show ?thesis by simp
qed

lemma pretrain_step_reports:
  assumes "ds_files ds \<noteq> []" "reporting_due self step = returns True"
    and "real_batches \<noteq> []" "\<forall>b\<in>set real_batches. length b = n"
    and "\<forall>vars b. length (generator e vars b) = length b"
    and "length real_batches * n < 8 \<or> 8 dvd length real_batches * n"
  shows "\<exists>w' fig. pretrain_step self e ds real_batches start step w = (Inl (KeyError ''step''), w')
           \<and> events w' = events w @
               [RanTrainOp, SavedCheckpoint (save_dir self) (pretrain_generator_name self),
                SavedFigure (''result/generated_images_at_step_'' @ str_int step @ ''.png'') fig]"
proof -
  from run_train_op_ok [OF assms(1), of self e w] obtain loss w1
    where 1: "run_train_op self e ds w = (Inr loss, w1)"
      and 2: "events w1 = events w @ [RanTrainOp]" by blast
  from report_raises [OF assms(3-6), of self start step loss w1] obtain w2
    where 3: "report self e real_batches start step loss w1 = (Inl (KeyError ''step''), w2)"
      and 4: "events w2 = events w1 @
         [SavedCheckpoint (save_dir self) (pretrain_generator_name self),
          SavedFigure (''result/generated_images_at_step_'' @ str_int step @ ''.png'')
            (grid_figure (np_clip (concat (map (generator e (variables w1)) real_batches)) 0 1))]"
    by blast
  have "pretrain_step self e ds real_batches start step w = (Inl (KeyError ''step''), w2)"
    unfolding pretrain_step_def
    by (subst seq_def) (simp add: 1 assms(2) seq_returns 3)
  with 2 4 show ?thesis by simp
qed

lemma range_py_4: "range_py 4 = [0, 1, 2, 3]"
  by (simp add: range_py_def upt_rec)

lemma training_loop_every_second_of_four:
  assumes "ds_files ds \<noteq> []" "pretrain_reporting_steps self = 2"
    and "real_batches \<noteq> []" "\<forall>b\<in>set real_batches. length b = n"
    and "\<forall>vars b. length (generator e vars b) = length b"
    and "length real_batches * n < 8 \<or> 8 dvd length real_batches * n"
  shows "\<exists>w' fig. for_each (range_py 4) (pretrain_step self e ds real_batches start) w
             = (Inl (KeyError ''step''), w')
           \<and> events w' = events w @
               [RanTrainOp, RanTrainOp, RanTrainOp,
                SavedCheckpoint (save_dir self) (pretrain_generator_name self),
                SavedFigure ''result/generated_images_at_step_2.png'' fig]"
proof -
  note due = reporting_due_every_second [OF assms(2)]
  from pretrain_step_quiet [OF assms(1) due(1), of e real_batches start w] obtain w1
    where 1: "pretrain_step self e ds real_batches start 0 w = (Inr (), w1)"
      and e1: "events w1 = events w @ [RanTrainOp]" by blast
  from pretrain_step_quiet [OF assms(1) due(2), of e real_batches start w1] obtain w2
    where 2: "pretrain_step self e ds real_batches start 1 w1 = (Inr (), w2)"
      and e2: "events w2 = events w1 @ [RanTrainOp]" by blast
  from pretrain_step_reports [OF assms(1) due(3) assms(3-6), of start w2] obtain w3 fig
    where 3: "pretrain_step self e ds real_batches start 2 w2 = (Inl (KeyError ''step''), w3)"
      and e3: "events w3 = events w2 @
               [RanTrainOp, SavedCheckpoint (save_dir self) (pretrain_generator_name self),
                SavedFigure (''result/generated_images_at_step_'' @ str_int 2 @ ''.png'') fig]"
    by blast
  have "for_each (range_py 4) (pretrain_step self e ds real_batches start) w
          = (Inl (KeyError ''step''), w3)"
    by (simp add: range_py_4 seq_def 1 2 3)
  with e1 e2 e3 show ?thesis by (simp add: str_int_digit)
qed

lemma sample_and_train_every_second_of_four:
  assumes "ds_files ds \<noteq> []" "ds_batch ds = batch_size self"
    and "0 < batch_size self" "batch_size self \<le> sample_size self"
    and "pretrain_num_steps self = 4" "pretrain_reporting_steps self = 2"
    and "\<forall>vars b. length (generator e vars b) = length b"
    and "nat (sample_size self div batch_size self) * nat (batch_size self) < 8
         \<or> 8 dvd nat (sample_size self div batch_size self) * nat (batch_size self)"
    and "sample_size self < 2 ^ 53"
  shows "\<exists>w' fig0 fig2. sample_and_train self e ds start w = (Inl (KeyError ''step''), w')
           \<and> events w' = events w @
               [SavedFigure ''result/sample_images.png'' fig0,
                RanTrainOp, RanTrainOp, RanTrainOp,
                SavedCheckpoint (save_dir self) (pretrain_generator_name self),
                SavedFigure ''result/generated_images_at_step_2.png'' fig2]"
proof -
  let ?k = "nat (sample_size self div batch_size self)"
  let ?rbs = "map (batch_at e ds) [batches_fetched w..<batches_fetched w + ?k]"
  let ?w1 = "w\<lparr>log_records := log_records w @
           [''Sampling '' @ str_int (sample_size self)
              @ '' images for tracking generator's performance...''],
        batches_fetched := batches_fetched w + ?k\<rparr>"
  let ?sample = "np_clip (concat ?rbs) 0 1"
  let ?w2 = "after_export ?sample ''result'' (Some ''sample_images.png'') ?w1"
  have kpos: "0 < ?k"
    using assms(3,4) by (simp add: pos_imp_zdiv_pos_iff)
  then have ne: "?rbs \<noteq> []" by simp
  have len: "\<forall>b\<in>set ?rbs. length b = nat (batch_size self)"
    by (auto simp: length_batch_at assms(2))
  then have "length (concat ?rbs) = ?k * nat (batch_size self)"
    using length_concat_uniform [of ?rbs "nat (batch_size self)"] by simp
  with assms(8) have grid: "length ?sample < 8 \<or> 8 dvd length ?sample"
    by (simp add: length_np_clip)
  have grid': "length ?rbs * nat (batch_size self) < 8 \<or> 8 dvd length ?rbs * nat (batch_size self)"
    using assms(8) by simp
  from training_loop_every_second_of_four [OF assms(1) assms(6) ne len assms(7) grid',
      of start ?w2]
  obtain w3 fig where loop: "for_each (range_py 4) (pretrain_step self e ds ?rbs start) ?w2
             = (Inl (KeyError ''step''), w3)"
    and ev: "events w3 = events ?w2 @
               [RanTrainOp, RanTrainOp, RanTrainOp,
                SavedCheckpoint (save_dir self) (pretrain_generator_name self),
                SavedFigure ''result/generated_images_at_step_2.png'' fig]"
    by blast
  have "sample_and_train self e ds start w = (Inl (KeyError ''step''), w3)"
    unfolding sample_and_train_def
    apply (subst seq_def)
    apply (simp only: sample_real_batches_ok [OF assms(1,3,4,9)] prod.case sum.case)
    apply (subst seq_def)
    apply (simp only: np_concatenate_def ne if_False returns_def prod.case sum.case)
    apply (subst seq_def)
    apply (simp only: save_generated_images_ok [OF grid] prod.case sum.case assms(5) loop)
    done
  moreover have "events ?w2 = events w @ [SavedFigure ''result/sample_images.png''
      (grid_figure ?sample)]"
    by (simp add: after_export_def path_join_def)
  ultimately show ?thesis using ev by simp
qed


section \<open>The whole run of the toy scenario\<close>

lemma pretrain_generator_every_second_of_four:
  assumes "pretrain_num_steps self = 4" "pretrain_reporting_steps self = 2"
    and "ds_files (train_dataset self e) \<noteq> []"
    and "0 < batch_size self" "batch_size self \<le> sample_size self"
    and "nat (sample_size self div batch_size self) * nat (batch_size self) < 8
         \<or> 8 dvd nat (sample_size self div batch_size self) * nat (batch_size self)"
    and "\<forall>vars b. length (generator e vars b) = length b"
    and "sample_size self < 2 ^ 53"
  shows "\<exists>w' fig0 fig2. pretrain_generator self e w = (Inl (KeyError ''step''), w')
           \<and> events w' = events w @
               [SavedFigure ''result/sample_images.png'' fig0,
                RanTrainOp, RanTrainOp, RanTrainOp,
                SavedCheckpoint (save_dir self) (pretrain_generator_name self),
                SavedFigure ''result/generated_images_at_step_2.png'' fig2]"
proof -
  from load_previous_checkpoints_returns [of self e "session_started self e w"] obtain w1
    where 1: "load_previous_checkpoints self e (session_started self e w) = (Inr (), w1)"
      and 2: "events w1 = events (session_started self e w)" by blast
  have ds: "ds_batch (train_dataset self e) = batch_size self"
    by (simp add: train_dataset_def)
  from sample_and_train_every_second_of_four [OF assms(3) ds assms(4,5,1,2,7,6,8),
      of "clock w" w1]
  obtain w2 fig0 fig2
    where 3: "sample_and_train self e (train_dataset self e) (clock w) w1
                = (Inl (KeyError ''step''), w2)"
      and 4: "events w2 = events w1 @
               [SavedFigure ''result/sample_images.png'' fig0,
                RanTrainOp, RanTrainOp, RanTrainOp,
                SavedCheckpoint (save_dir self) (pretrain_generator_name self),
                SavedFigure ''result/generated_images_at_step_2.png'' fig2]" by blast
  have "pretrain_generator self e w = (Inl (KeyError ''step''), w2)"
    by (simp add: pretrain_generator_started [OF assms(3,4)] seq_def 1 3)
  moreover have "events w1 = events w"
    using 2 by (simp add: session_started_def)
  ultimately show ?thesis using 4 by simp
qed

lemma toy_run_conditions:
  "pretrain_num_steps toy_trainer = 4" "pretrain_reporting_steps toy_trainer = 2"
  "ds_files (train_dataset toy_trainer toy_env) \<noteq> []"
  "0 < batch_size toy_trainer" "batch_size toy_trainer \<le> sample_size toy_trainer"
  "nat (sample_size toy_trainer div batch_size toy_trainer) * nat (batch_size toy_trainer) < 8
     \<or> 8 dvd nat (sample_size toy_trainer div batch_size toy_trainer)
          * nat (batch_size toy_trainer)"
  "\<forall>vars b. length (generator toy_env vars b) = length b"
  "sample_size toy_trainer < 2 ^ 53"
  by (simp_all add: toy_trainer_def toy_env_def train_dataset_def)


section \<open>Runs without a report, runs with too small a sample\<close>

lemma reporting_due_before_first_report:
  assumes "0 \<le> step" "step < pretrain_reporting_steps self"
  shows "reporting_due self step = returns False"
  using assms
  by (auto simp: reporting_due_def pymod_def fun_eq_iff seq_returns)

lemma training_loop_without_report:
  assumes "ds_files ds \<noteq> []"
    and "\<forall>step\<in>set steps. 0 \<le> step \<and> step < pretrain_reporting_steps self"
  shows "\<exists>w'. for_each steps (pretrain_step self e ds real_batches start) w = (Inr (), w')"
  using assms(2)
proof (induction steps arbitrary: w)
  case Nil
  show ?case by (simp add: returns_def)
next
  case (Cons step steps)
  then have "reporting_due self step = returns False"
    by (simp add: reporting_due_before_first_report)
  from pretrain_step_quiet [OF assms(1) this, of e real_batches start w] obtain w1
    where 1: "pretrain_step self e ds real_batches start step w = (Inr (), w1)" by blast
  from Cons obtain w2
    where "for_each steps (pretrain_step self e ds real_batches start) w1 = (Inr (), w2)"
    by fastforce
  with 1 show ?case by (simp add: seq_def)
qed

lemma set_range_py: "set (range_py n) = {i. 0 \<le> i \<and> i < n}"
proof -
  have "set (range_py n) = int ` {0..<nat n}" by (simp add: range_py_def)
  also have "\<dots> = {i. 0 \<le> i \<and> i < n}"
  proof (intro set_eqI iffI)
    fix i assume "i \<in> int ` {0..<nat n}"
    then show "i \<in> {i. 0 \<le> i \<and> i < n}" by auto
  next
    fix i assume "i \<in> {i. 0 \<le> i \<and> i < n}"
    then have "i = int (nat i)" "nat i \<in> {0..<nat n}" by auto
    then show "i \<in> int ` {0..<nat n}" by (rule image_eqI)
  qed
  finally show ?thesis .
qed

lemma sample_and_train_without_report:
  assumes "ds_files ds \<noteq> []" "ds_batch ds = batch_size self"
    and "0 < batch_size self" "batch_size self \<le> sample_size self"
    and "pretrain_num_steps self \<le> pretrain_reporting_steps self"
    and "nat (sample_size self div batch_size self) * nat (batch_size self) < 8
         \<or> 8 dvd nat (sample_size self div batch_size self) * nat (batch_size self)"
    and "sample_size self < 2 ^ 53"
  shows "\<exists>w'. sample_and_train self e ds start w = (Inr (), w')"
proof -
  let ?k = "nat (sample_size self div batch_size self)"
  let ?rbs = "map (batch_at e ds) [batches_fetched w..<batches_fetched w + ?k]"
  let ?w1 = "w\<lparr>log_records := log_records w @
           [''Sampling '' @ str_int (sample_size self)
              @ '' images for tracking generator's performance...''],
        batches_fetched := batches_fetched w + ?k\<rparr>"
  let ?sample = "np_clip (concat ?rbs) 0 1"
  let ?w2 = "after_export ?sample ''result'' (Some ''sample_images.png'') ?w1"
  have kpos: "0 < ?k"
    using assms(3,4) by (simp add: pos_imp_zdiv_pos_iff)
  then have ne: "?rbs \<noteq> []" by simp
  have len: "\<forall>b\<in>set ?rbs. length b = nat (batch_size self)"
    by (auto simp: length_batch_at assms(2))
  then have "length (concat ?rbs) = ?k * nat (batch_size self)"
    using length_concat_uniform [of ?rbs "nat (batch_size self)"] by simp
  with assms(6) have grid: "length ?sample < 8 \<or> 8 dvd length ?sample"
    by (simp add: length_np_clip)
  have "\<forall>step\<in>set (range_py (pretrain_num_steps self)).
          0 \<le> step \<and> step < pretrain_reporting_steps self"
    using assms(5) by (auto simp: set_range_py)
  from training_loop_without_report [OF assms(1) this, of e ?rbs start ?w2]
  obtain w3 where loop: "for_each (range_py (pretrain_num_steps self))
      (pretrain_step self e ds ?rbs start) ?w2 = (Inr (), w3)" by blast
  have "sample_and_train self e ds start w = (Inr (), w3)"
    unfolding sample_and_train_def
    apply (subst seq_def)
    apply (simp only: sample_real_batches_ok [OF assms(1,3,4,7)] prod.case sum.case)
    apply (subst seq_def)
    apply (simp only: np_concatenate_def ne if_False returns_def prod.case sum.case)
    apply (subst seq_def)
    apply (simp only: save_generated_images_ok [OF grid] prod.case sum.case loop)
    done
  then show ?thesis by blast
qed

lemma sample_and_train_sample_too_small:
  assumes "0 < batch_size self" "sample_size self < batch_size self"
    and "\<bar>sample_size self\<bar> < 2 ^ 53"
  shows "sample_and_train self e ds start w =
     (Inl (ValueError ''need at least one array to concatenate''),
      w\<lparr>log_records := log_records w @
           [''Sampling '' @ str_int (sample_size self)
              @ '' images for tracking generator's performance...'']\<rparr>)"
proof -
  let ?n = "sgn (sample_size self) * sgn (batch_size self)
          * (\<bar>sample_size self\<bar> div \<bar>batch_size self\<bar>)"
  have "?n \<le> 0"
  proof (cases "0 \<le> sample_size self")
    case True
    with assms show ?thesis by simp
  next
    case False
    with assms have "sgn (sample_size self) = - 1" "sgn (batch_size self) = 1"
      "0 \<le> \<bar>sample_size self\<bar> div \<bar>batch_size self\<bar>"
      by (simp_all add: pos_imp_zdiv_nonneg_iff)
    then show ?thesis by simp
  qed
  then have empty: "range_py ?n = []"
    by (simp add: range_py_def)
  have "batch_size self \<noteq> 0" using assms(1) by simp
  note q = seq_int_truediv_exact [OF assms(3) this]
  show ?thesis
    unfolding sample_and_train_def sample_real_batches_def
    by (simp only: seq_assoc seq_logger_info q empty collect.simps seq_returns)
       (simp add: np_concatenate_def seq_raises)
qed

lemma pretrain_generator_sample_too_small:
  assumes "ds_files (train_dataset self e) \<noteq> []" "0 < batch_size self"
    and "sample_size self < batch_size self" "\<bar>sample_size self\<bar> < 2 ^ 53"
  shows "\<exists>w'. pretrain_generator self e w =
            (Inl (ValueError ''need at least one array to concatenate''), w')
          \<and> events w' = events w \<and> batches_fetched w' = 0"
proof -
  from load_previous_checkpoints_returns [of self e "session_started self e w"] obtain w1
    where 1: "load_previous_checkpoints self e (session_started self e w) = (Inr (), w1)"
      and 2: "events w1 = events (session_started self e w)"
      and 3: "batches_fetched w1 = batches_fetched (session_started self e w)"
    by blast
  have "pretrain_generator self e w =
     (Inl (ValueError ''need at least one array to concatenate''),
      w1\<lparr>log_records := log_records w1 @
           [''Sampling '' @ str_int (sample_size self)
              @ '' images for tracking generator's performance...'']\<rparr>)"
    by (simp add: pretrain_generator_started [OF assms(1,2)] seq_def 1
        sample_and_train_sample_too_small [OF assms(2-4)])
  with 2 3 show ?thesis by (simp add: session_started_def)
qed

lemma double_quotient_values:
  "truncated_double_quotient 18014398509481983 9007199254740992 = 2"
  "truncated_double_quotient 1152921504606846975 1152921504606846976 = 1"
  by code_simp+

section \<open>Normalized images\<close>

lemma pixels_map: "pixels (map (map (map f)) img) = map f (pixels img)"
  by (simp add: pixels_def map_concat)

lemma image_shape_map:
  "image_shape h w c (map (map (map f)) img) = image_shape h w c img"
  by (auto simp: image_shape_def)

lemma normalize_range:
  fixes v :: real
  assumes "0 \<le> v" "v \<le> 255"
  shows "- 1 \<le> v / 127.5 - 1" "v / 127.5 - 1 \<le> 1"
  using assms by simp_all

lemma image_processing_normalized:
  assumes "decode_contract e" "resize_contract e" "0 < input_size self"
  shows "image_shape (nat (input_size self)) (nat (input_size self)) 3
           (image_processing self e filename)"
    and "\<forall>v\<in>set (pixels (image_processing self e filename)). - 1 \<le> v \<and> v \<le> 1"
proof -
  let ?x = "decode_jpeg e (read_file e filename) 3"
  let ?r = "resize_images e ?x (input_size self) (input_size self)"
  from assms(1) have "decoded 3 ?x" by (simp add: decode_contract_def)
  with assms(2,3) have r: "image_shape (nat (input_size self)) (nat (input_size self)) 3 ?r"
    "\<forall>v\<in>set (pixels ?r). 0 \<le> v \<and> v \<le> 255"
    unfolding resize_contract_def by blast+
  have ip: "image_processing self e filename = map (map (map (\<lambda>v. v / 127.5 - 1))) ?r"
    by (simp add: image_processing_def Let_def)
  show "image_shape (nat (input_size self)) (nat (input_size self)) 3
           (image_processing self e filename)"
    using r(1) by (simp only: ip image_shape_map)
  show "\<forall>v\<in>set (pixels (image_processing self e filename)). - 1 \<le> v \<and> v \<le> 1"
    unfolding ip pixels_map using r(2) normalize_range by auto
qed

lemma element_at_file:
  assumes "ds_files ds \<noteq> []"
  shows "\<exists>f\<in>set (ds_files ds). element_at e ds k = ds_map ds f"
proof -
  from assms have "shuffle_order e k mod length (ds_files ds) < length (ds_files ds)"
    by simp
  then have "ds_files ds ! (shuffle_order e k mod length (ds_files ds)) \<in> set (ds_files ds)"
    by (rule nth_mem)
  then show ?thesis unfolding element_at_def by blast
qed

lemma batch_at_elements:
  assumes "ds_files ds \<noteq> []" "img \<in> set (batch_at e ds k)"
  shows "\<exists>f\<in>set (ds_files ds). img = ds_map ds f"
  using assms element_at_file [OF assms(1), of e] by (auto simp: batch_at_def)

lemma batch_at_normalized:
  assumes "decode_contract e" "resize_contract e" "0 < input_size self"
    and "ds_files ds \<noteq> []" "ds_map ds = image_processing self e"
  shows "batch_shape (nat (ds_batch ds)) (nat (input_size self)) (nat (input_size self)) 3
           (batch_at e ds k)"
    and "pixels_within (- 1) 1 (batch_at e ds k)"
proof -
  have each: "image_shape (nat (input_size self)) (nat (input_size self)) 3 img
      \<and> (\<forall>v\<in>set (pixels img). - 1 \<le> v \<and> v \<le> 1)" if "img \<in> set (batch_at e ds k)" for img
  proof -
    from batch_at_elements [OF assms(4) that] obtain f where "img = ds_map ds f" by blast
    with assms(5) image_processing_normalized [OF assms(1-3), of f] show ?thesis by simp
  qed
  show "batch_shape (nat (ds_batch ds)) (nat (input_size self)) (nat (input_size self)) 3
           (batch_at e ds k)"
    using each by (simp add: batch_shape_def length_batch_at)
  show "pixels_within (- 1) 1 (batch_at e ds k)"
    using each by (simp add: pixels_within_def)
qed

lemma clip_range: "lo \<le> hi \<Longrightarrow> lo \<le> clip lo hi v \<and> clip lo hi v \<le> hi"
  by (simp add: clip_def)

lemma pixels_within_np_clip: "lo \<le> hi \<Longrightarrow> pixels_within lo hi (np_clip x lo hi)"
  by (auto simp: pixels_within_def np_clip_def pixels_map clip_range)

lemma toy_contracts: "decode_contract toy_env" "resize_contract toy_env"
proof -
  show "decode_contract toy_env"
    by (simp add: decode_contract_def decoded_def toy_env_def)
  have u: "real (unat v) \<le> 255" for v :: "8 word"
  proof -
    have "unat v < 256" using unsigned_less [of v, where 'a = nat] by simp
    then have "unat v \<le> 255" by simp
    then show ?thesis by (metis of_nat_le_iff of_nat_numeral)
  qed
  have u0: "0 \<le> real (unat v)" for v :: "8 word"
    by (rule of_nat_0_le_iff)
  show "resize_contract toy_env"
    unfolding resize_contract_def
  proof (intro allI impI)
    fix x :: "8 word list list list" and h w :: int and c :: nat
    assume a: "0 < h \<and> 0 < w \<and> decoded c x"
    then have "length (hd (hd x)) = c"
      by (cases x; cases "hd x") (auto simp: decoded_def)
    then show "image_shape (nat h) (nat w) c (resize_images toy_env x h w)
        \<and> (\<forall>v\<in>set (pixels (resize_images toy_env x h w)). 0 \<le> v \<and> v \<le> 255)"
      using u u0 by (auto simp: toy_env_def image_shape_def pixels_def)
  qed
qed


lemma pixels_within_concat:
  "(\<forall>b\<in>set bs. pixels_within lo hi b) \<Longrightarrow> pixels_within lo hi (concat bs)"
  by (auto simp: pixels_within_def)

lemma length_pixels:
  "image_shape h w c img \<Longrightarrow> length (pixels img) = h * w * c"
proof -
  assume a: "image_shape h w c img"
  have rows: "\<forall>row\<in>set img. length (concat row) = w * c"
  proof
    fix row assume "row \<in> set img"
    with a have "length row = w" "\<forall>px\<in>set row. length px = c"
      by (simp_all add: image_shape_def)
    with length_concat_uniform [of row c] show "length (concat row) = w * c" by simp
  qed
  have "length (concat (concat img)) = length img * (w * c)"
    using rows by (induction img) simp_all
  with a show ?thesis by (simp add: pixels_def image_shape_def)
qed

lemma batch_shape_np_clip:
  "batch_shape n h w c (np_clip x lo hi) = batch_shape n h w c x"
  by (auto simp: batch_shape_def np_clip_def image_shape_map)


section \<open>The losses of the adversarial mode\<close>

lemma sigmoid_cross_entropy_label_1:
  "sigmoid_cross_entropy_with_logits 1 x = cross_entropy 1 (sigmoid x)"
proof -
  have pos: "0 < 1 + exp (- x)" by (simp add: add_pos_pos)
  have spec: "cross_entropy 1 (sigmoid x) = ln (1 + exp (- x))"
    using pos by (simp add: cross_entropy_def sigmoid_def ln_div)
  show ?thesis
  proof (cases "0 \<le> x")
    case True
    then show ?thesis by (simp add: spec sigmoid_cross_entropy_with_logits_def)
  next
    case False
    then have neg: "x < 0" by simp
    have "ln (1 + exp (- x)) = ln (exp (- x) * (1 + exp x))"
      by (simp add: algebra_simps exp_minus_inverse)
    also have "\<dots> = ln (exp (- x)) + ln (1 + exp x)"
      by (rule ln_mult_pos) (simp_all add: add_pos_pos)
    also have "\<dots> = - x + ln (1 + exp x)" by simp
    finally have "ln (1 + exp (- x)) = - x + ln (1 + exp x)" .
    with neg show ?thesis by (simp add: spec sigmoid_cross_entropy_with_logits_def)
  qed
qed

lemma sum_list_map_index:
  fixes f :: "'a \<Rightarrow> real"
  shows "sum_list (map f xs) = (\<Sum>i<length xs. f (xs ! i))"
proof -
  have "sum_list (map f xs) = (\<Sum>i = 0..<length (map f xs). map f xs ! i)"
    by (rule sum_list_sum_nth)
  also have "\<dots> = (\<Sum>i<length xs. f (xs ! i))"
    by (simp add: lessThan_atLeast0)
  finally show ?thesis .
qed

lemma adversarial_loss_refines:
  "sigmoid_cross_entropy (ones_like logits) logits = spec_adversarial_loss logits"
proof -
  have "map2 sigmoid_cross_entropy_with_logits (ones_like logits) logits
      = map (\<lambda>x. cross_entropy 1 (sigmoid x)) logits"
    by (induction logits) (simp_all add: ones_like_def sigmoid_cross_entropy_label_1)
  then show ?thesis
    by (simp add: sigmoid_cross_entropy_def spec_adversarial_loss_def sum_list_map_index)
qed

lemma content_loss_refines:
  assumes "length b = length a"
  shows "reduce_mean (tf_abs (tf_sub a b)) = spec_content_loss a b"
proof -
  have "tf_abs (tf_sub a b) = map (\<lambda>i. \<bar>a ! i - b ! i\<bar>) [0..<length a]"
    using assms by (auto simp: tf_abs_def tf_sub_def intro: nth_equalityI)
  then have "sum_list (tf_abs (tf_sub a b)) = (\<Sum>i<length a. \<bar>a ! i - b ! i\<bar>)"
    by (simp add: sum_list_map_index)
  moreover have "length (tf_abs (tf_sub a b)) = length a"
    using assms by (simp add: tf_abs_def tf_sub_def)
  ultimately show ?thesis
    by (simp add: reduce_mean_def spec_content_loss_def)
qed


section \<open>The loss log\<close>

text \<open>
  Claim C1 asks for one well-formed line \<^verbatim>\<open><step>\t<loss>\n\<close> in
  \<^verbatim>\<open>result/batch_losses.tsv\<close> after the toy scenario. The code writes none: no run of
  \<^verbatim>\<open>pretrain_generator\<close> changes any text file, because the report raises \<open>KeyError\<close>
  in \<^verbatim>\<open>"[Step {step}] ...".format(batch_loss, ...)\<close> before the file is opened; and the
  write itself, \<^verbatim>\<open>f.write(step, '\t', batch_loss + '\n')\<close>, never returns either. In the
  toy scenario the run ends with that \<open>KeyError\<close> and the file does not exist.
\<close>

theorem pretrain_generator_writes_no_loss_record:
  "text_files (snd (pretrain_generator self e w)) = text_files w
   \<and> fst (write_batch_loss step batch_loss w) \<noteq> Inr ()
   \<and> fst (pretrain_generator toy_trainer toy_env fresh_world) = Inl (KeyError ''step'')
   \<and> text_files (snd (pretrain_generator toy_trainer toy_env fresh_world))
        ''result/batch_losses.tsv'' = None"
proof -
  have 1: "text_files (snd (pretrain_generator self e w)) = text_files w" for self e w
    using keeps_same_files_pretrain_generator [of self e]
    by (simp add: keeps_def same_files_def)
  have 2: "fst (write_batch_loss step batch_loss w) \<noteq> Inr ()"
    by (simp add: write_batch_loss_def seq_def open_append_def lift_def)
  from pretrain_generator_every_second_of_four [OF toy_run_conditions, of fresh_world]
  have 3: "fst (pretrain_generator toy_trainer toy_env fresh_world) = Inl (KeyError ''step'')"
    by auto
  have 4: "text_files fresh_world ''result/batch_losses.tsv'' = None"
    by (simp add: fresh_world_def)
  show ?thesis using 1 2 3 4 by simp
qed

section \<open>One report, at step 2\<close>

text \<open>
  Claim C2. With \<^verbatim>\<open>pretrain_num_steps = 4\<close> and \<^verbatim>\<open>pretrain_reporting_steps = 2\<close>, on a
  data set with at least one image, with a batch size that is positive and at most the
  sample size, a sample size below \<open>2 ^ 53\<close> (so that \<^verbatim>\<open>int(S / B)\<close> is the exact
  quotient), a sample that fits the grid of the baseline export and a generator that
  returns as many images as it is given, the run of \<^verbatim>\<open>pretrain_generator\<close> has
  exactly these effects, in this order: the export of the baseline grid, three training
  operations (steps 0, 1 and 2), one save of the generator's checkpoint and one export
  of generated images, named after step 2. A report is due at step 2 and at none of the
  steps 0, 1 and 3. The run ends in that report: the call of \<^verbatim>\<open>str.format\<close> raises
  \<open>KeyError\<close>, so that step 3 is not run.
\<close>

theorem pretrain_generator_reports_once_at_step_2:
  assumes "pretrain_num_steps self = 4" "pretrain_reporting_steps self = 2"
    and "ds_files (train_dataset self e) \<noteq> []"
    and "0 < batch_size self" "batch_size self \<le> sample_size self"
    and "nat (sample_size self div batch_size self) * nat (batch_size self) < 8
         \<or> 8 dvd nat (sample_size self div batch_size self) * nat (batch_size self)"
    and "\<forall>vars b. length (generator e vars b) = length b"
    and "sample_size self < 2 ^ 53"
  shows "(\<exists>fig0 fig2. events (snd (pretrain_generator self e w)) = events w @
               [SavedFigure ''result/sample_images.png'' fig0,
                RanTrainOp, RanTrainOp, RanTrainOp,
                SavedCheckpoint (save_dir self) (pretrain_generator_name self),
                SavedFigure ''result/generated_images_at_step_2.png'' fig2])
       \<and> fst (pretrain_generator self e w) = Inl (KeyError ''step'')
       \<and> reporting_due self 0 w = (Inr False, w) \<and> reporting_due self 1 w = (Inr False, w)
       \<and> reporting_due self 2 w = (Inr True, w) \<and> reporting_due self 3 w = (Inr False, w)"
proof -
  from pretrain_generator_every_second_of_four [OF assms, of w]
  have "(\<exists>fig0 fig2. events (snd (pretrain_generator self e w)) = events w @
               [SavedFigure ''result/sample_images.png'' fig0,
                RanTrainOp, RanTrainOp, RanTrainOp,
                SavedCheckpoint (save_dir self) (pretrain_generator_name self),
                SavedFigure ''result/generated_images_at_step_2.png'' fig2])
       \<and> fst (pretrain_generator self e w) = Inl (KeyError ''step'')"
    by auto
  then show ?thesis
    by (simp add: reporting_due_every_second [OF assms(2)] returns_def)
qed

text \<open>The theorem at the toy scenario: four images, batch size 2.\<close>

theorem pretrain_generator_reports_once_at_step_2_witness:
  "pretrain_num_steps toy_trainer = 4 \<and> pretrain_reporting_steps toy_trainer = 2
   \<and> batch_size toy_trainer = 2
   \<and> length (ds_files (train_dataset toy_trainer toy_env)) = 4
   \<and> (\<exists>fig0 fig2. events (snd (pretrain_generator toy_trainer toy_env fresh_world)) =
               [SavedFigure ''result/sample_images.png'' fig0,
                RanTrainOp, RanTrainOp, RanTrainOp,
                SavedCheckpoint ''ckpts'' ''pretrain_generator'',
                SavedFigure ''result/generated_images_at_step_2.png'' fig2])"
proof -
  have "events fresh_world = []" "save_dir toy_trainer = ''ckpts''"
    "pretrain_generator_name toy_trainer = ''pretrain_generator''"
    "batch_size toy_trainer = 2" "length (ds_files (train_dataset toy_trainer toy_env)) = 4"
    by (simp_all add: fresh_world_def toy_trainer_def toy_env_def train_dataset_def)
  with pretrain_generator_reports_once_at_step_2 [OF toy_run_conditions, of fresh_world]
    toy_run_conditions(1,2)
  show ?thesis by simp
qed


section \<open>A missing checkpoint\<close>

text \<open>
  Claim C3 says that a run whose checkpoint is missing does not raise. Runs with a
  missing checkpoint do raise, for reasons that have nothing to do with the restore: the
  toy run ends in the \<open>KeyError\<close> of its first report, and the toy run with a sample
  size of 1 ends in the \<open>ValueError\<close> of \<^verbatim>\<open>np.concatenate\<close>.
\<close>

theorem run_with_missing_checkpoint_raises:
  "checkpoints fresh_world (save_dir toy_trainer, pretrain_generator_name toy_trainer) = None
   \<and> fst (pretrain_generator toy_trainer toy_env fresh_world) = Inl (KeyError ''step'')
   \<and> checkpoints fresh_world (save_dir (toy_trainer\<lparr>sample_size := 1\<rparr>),
         pretrain_generator_name (toy_trainer\<lparr>sample_size := 1\<rparr>)) = None
   \<and> fst (pretrain_generator (toy_trainer\<lparr>sample_size := 1\<rparr>) toy_env fresh_world)
        = Inl (ValueError ''need at least one array to concatenate'')"
proof -
  from pretrain_generator_every_second_of_four [OF toy_run_conditions, of fresh_world]
  have 1: "fst (pretrain_generator toy_trainer toy_env fresh_world) = Inl (KeyError ''step'')"
    by auto
  have "ds_files (train_dataset (toy_trainer\<lparr>sample_size := 1\<rparr>) toy_env) \<noteq> []"
    "0 < batch_size (toy_trainer\<lparr>sample_size := 1\<rparr>)"
    "sample_size (toy_trainer\<lparr>sample_size := 1\<rparr>) < batch_size (toy_trainer\<lparr>sample_size := 1\<rparr>)"
    "\<bar>sample_size (toy_trainer\<lparr>sample_size := 1\<rparr>)\<bar> < 2 ^ 53"
    by (simp_all add: toy_trainer_def toy_env_def train_dataset_def)
  from pretrain_generator_sample_too_small [OF this, of fresh_world]
  have 2: "fst (pretrain_generator (toy_trainer\<lparr>sample_size := 1\<rparr>) toy_env fresh_world)
        = Inl (ValueError ''need at least one array to concatenate'')"
    by auto
  have 3: "checkpoints fresh_world (save_dir toy_trainer, pretrain_generator_name toy_trainer)
        = None"
    "checkpoints fresh_world (save_dir (toy_trainer\<lparr>sample_size := 1\<rparr>),
         pretrain_generator_name (toy_trainer\<lparr>sample_size := 1\<rparr>)) = None"
    by (simp_all add: fresh_world_def)
  from 1 2 3 show ?thesis by blast
qed

text \<open>
  Claim C3, amended. When there is no checkpoint under the save directory and the name
  \<^verbatim>\<open>pretrain_generator_name\<close>, the restore fails inside the \<^verbatim>\<open>try\<close>, the failure is
  caught there and logged (\<open>... checkpoints not found, start from scratch...\<close>), and
  lines 149 to 154 return without an exception and without touching a variable. On a
  source folder with at least one image and with a positive batch size the method then
  does what its sampling and training (lines 156 to 186) do from a world whose
  variables are the freshly initialized values. A run in which moreover no report falls
  due, and whose sample can be drawn and fits the grid, returns without raising.
\<close>

theorem missing_checkpoint_is_caught_and_logged:
  assumes "checkpoints w (save_dir self, pretrain_generator_name self) = None"
  shows "load_previous_checkpoints self e w =
           (Inr (), w\<lparr>log_records := log_records w @
              [''Loading previous checkpoints...'',
               pretrain_generator_name self @ '' checkpoints not found, start from scratch...'']\<rparr>)
       \<and> (ds_files (train_dataset self e) \<noteq> [] \<and> 0 < batch_size self \<longrightarrow>
            pretrain_generator self e w =
              sample_and_train self e (train_dataset self e) (clock w)
                (w\<lparr>variables := initial_values e,
                   batches_fetched := 0,
                   log_records := log_records w @ startup_log self e @
                     [''Loading previous checkpoints...'',
                      pretrain_generator_name self
                        @ '' checkpoints not found, start from scratch...'']\<rparr>))
       \<and> (ds_files (train_dataset self e) \<noteq> []
            \<and> 0 < batch_size self \<and> batch_size self \<le> sample_size self
            \<and> sample_size self < 2 ^ 53
            \<and> (nat (sample_size self div batch_size self) * nat (batch_size self) < 8
               \<or> 8 dvd nat (sample_size self div batch_size self) * nat (batch_size self))
            \<and> pretrain_num_steps self \<le> pretrain_reporting_steps self \<longrightarrow>
            fst (pretrain_generator self e w) = Inr ())"
proof (intro conjI impI)
  show "load_previous_checkpoints self e w =
           (Inr (), w\<lparr>log_records := log_records w @
              [''Loading previous checkpoints...'',
               pretrain_generator_name self @ '' checkpoints not found, start from scratch...'']\<rparr>)"
    using assms by (rule load_previous_checkpoints_missing)
next
  assume b: "ds_files (train_dataset self e) \<noteq> [] \<and> 0 < batch_size self"
  have "checkpoints (session_started self e w) (save_dir self, pretrain_generator_name self)
          = None"
    using assms by (simp add: session_started_def)
  from load_previous_checkpoints_missing [OF this, of e] b
  show "pretrain_generator self e w =
      sample_and_train self e (train_dataset self e) (clock w)
        (w\<lparr>variables := initial_values e,
           batches_fetched := 0,
           log_records := log_records w @ startup_log self e @
             [''Loading previous checkpoints...'',
              pretrain_generator_name self
                @ '' checkpoints not found, start from scratch...'']\<rparr>)"
    by (simp add: pretrain_generator_started seq_def session_started_def)
next
  assume a: "ds_files (train_dataset self e) \<noteq> []
            \<and> 0 < batch_size self \<and> batch_size self \<le> sample_size self
            \<and> sample_size self < 2 ^ 53
            \<and> (nat (sample_size self div batch_size self) * nat (batch_size self) < 8
               \<or> 8 dvd nat (sample_size self div batch_size self) * nat (batch_size self))
            \<and> pretrain_num_steps self \<le> pretrain_reporting_steps self"
  from load_previous_checkpoints_returns [of self e "session_started self e w"] obtain w1
    where 1: "load_previous_checkpoints self e (session_started self e w) = (Inr (), w1)"
    by blast
  have ds: "ds_batch (train_dataset self e) = batch_size self"
    by (simp add: train_dataset_def)
  from a sample_and_train_without_report [of "train_dataset self e" self e "clock w" w1] ds
  obtain w2 where "sample_and_train self e (train_dataset self e) (clock w) w1 = (Inr (), w2)"
    by blast
  with a 1 show "fst (pretrain_generator self e w) = Inr ()"
    by (simp add: pretrain_generator_started seq_def)
qed

text \<open>The theorem at the toy scenario cut to two steps, in a fresh process, which has
  no checkpoint.\<close>

theorem missing_checkpoint_is_caught_and_logged_witness:
  "checkpoints fresh_world (save_dir (toy_trainer\<lparr>pretrain_num_steps := 2\<rparr>),
      pretrain_generator_name (toy_trainer\<lparr>pretrain_num_steps := 2\<rparr>)) = None
   \<and> load_previous_checkpoints (toy_trainer\<lparr>pretrain_num_steps := 2\<rparr>) toy_env fresh_world =
       (Inr (), fresh_world\<lparr>log_records :=
          [''Loading previous checkpoints...'',
           ''pretrain_generator checkpoints not found, start from scratch...'']\<rparr>)
   \<and> fst (pretrain_generator (toy_trainer\<lparr>pretrain_num_steps := 2\<rparr>) toy_env fresh_world)
       = Inr ()"
proof -
  have h: "checkpoints fresh_world (save_dir (toy_trainer\<lparr>pretrain_num_steps := 2\<rparr>),
      pretrain_generator_name (toy_trainer\<lparr>pretrain_num_steps := 2\<rparr>)) = None"
    by (simp add: fresh_world_def)
  have c: "ds_files (train_dataset (toy_trainer\<lparr>pretrain_num_steps := 2\<rparr>) toy_env) \<noteq> []
            \<and> 0 < batch_size (toy_trainer\<lparr>pretrain_num_steps := 2\<rparr>)
            \<and> batch_size (toy_trainer\<lparr>pretrain_num_steps := 2\<rparr>)
                \<le> sample_size (toy_trainer\<lparr>pretrain_num_steps := 2\<rparr>)
            \<and> sample_size (toy_trainer\<lparr>pretrain_num_steps := 2\<rparr>) < 2 ^ 53
            \<and> (nat (sample_size (toy_trainer\<lparr>pretrain_num_steps := 2\<rparr>)
                      div batch_size (toy_trainer\<lparr>pretrain_num_steps := 2\<rparr>))
                  * nat (batch_size (toy_trainer\<lparr>pretrain_num_steps := 2\<rparr>)) < 8
               \<or> 8 dvd nat (sample_size (toy_trainer\<lparr>pretrain_num_steps := 2\<rparr>)
                      div batch_size (toy_trainer\<lparr>pretrain_num_steps := 2\<rparr>))
                  * nat (batch_size (toy_trainer\<lparr>pretrain_num_steps := 2\<rparr>)))
            \<and> pretrain_num_steps (toy_trainer\<lparr>pretrain_num_steps := 2\<rparr>)
                \<le> pretrain_reporting_steps (toy_trainer\<lparr>pretrain_num_steps := 2\<rparr>)"
    by (simp add: toy_trainer_def toy_env_def train_dataset_def)
  have n: "pretrain_generator_name (toy_trainer\<lparr>pretrain_num_steps := 2\<rparr>)
      = ''pretrain_generator''" "log_records fresh_world = []"
    by (simp_all add: toy_trainer_def fresh_world_def)
  note t = missing_checkpoint_is_caught_and_logged [OF h, of toy_env]
  from t n have 1: "load_previous_checkpoints (toy_trainer\<lparr>pretrain_num_steps := 2\<rparr>)
       toy_env fresh_world =
       (Inr (), fresh_world\<lparr>log_records :=
          [''Loading previous checkpoints...'',
           ''pretrain_generator checkpoints not found, start from scratch...'']\<rparr>)"
    by simp
  from t c have 2: "fst (pretrain_generator (toy_trainer\<lparr>pretrain_num_steps := 2\<rparr>)
       toy_env fresh_world) = Inr ()"
    by blast
  from h 1 2 show ?thesis by blast
qed

section \<open>The fixed sample\<close>

text \<open>
  Claim C4 says that for every \<open>B \<le> S\<close> exactly \<open>floor(S / B)\<close> batches are drawn. The
  code computes \<^verbatim>\<open>int(self.sample_size / self.batch_size)\<close>, whose quotient is rounded
  to a double first: for a sample size of \<open>2 ^ 54 - 1\<close> and a batch size of \<open>2 ^ 53\<close> the
  floor is 1 and two batches are drawn.
\<close>

theorem large_sample_draws_more_batches:
  "batch_size (toy_trainer\<lparr>batch_size := 2 ^ 53, sample_size := 2 ^ 54 - 1\<rparr>)
     \<le> sample_size (toy_trainer\<lparr>batch_size := 2 ^ 53, sample_size := 2 ^ 54 - 1\<rparr>)
   \<and> sample_size (toy_trainer\<lparr>batch_size := 2 ^ 53, sample_size := 2 ^ 54 - 1\<rparr>)
       div batch_size (toy_trainer\<lparr>batch_size := 2 ^ 53, sample_size := 2 ^ 54 - 1\<rparr>) = 1
   \<and> fst (sample_real_batches (toy_trainer\<lparr>batch_size := 2 ^ 53, sample_size := 2 ^ 54 - 1\<rparr>)
          toy_env
          (train_dataset (toy_trainer\<lparr>batch_size := 2 ^ 53, sample_size := 2 ^ 54 - 1\<rparr>) toy_env)
          fresh_world)
       = Inr [batch_at toy_env
                (train_dataset (toy_trainer\<lparr>batch_size := 2 ^ 53, sample_size := 2 ^ 54 - 1\<rparr>)
                   toy_env) 0,
              batch_at toy_env
                (train_dataset (toy_trainer\<lparr>batch_size := 2 ^ 53, sample_size := 2 ^ 54 - 1\<rparr>)
                   toy_env) 1]"
proof -
  let ?t = "toy_trainer\<lparr>batch_size := 2 ^ 53, sample_size := 2 ^ 54 - 1\<rparr>"
  let ?ds = "train_dataset ?t toy_env"
  have q: "int_truediv (sample_size ?t) (batch_size ?t) v = (Inr 2, v)" for v
    by (simp add: int_truediv_def returns_def double_quotient_values)
  have files: "ds_files ?ds \<noteq> []" by (simp add: train_dataset_def toy_env_def)
  have "batches_fetched fresh_world = 0" by (simp add: fresh_world_def)
  with sample_real_batches_drawn [OF files q, of toy_env fresh_world]
  have s: "fst (sample_real_batches ?t toy_env ?ds fresh_world)
      = Inr [batch_at toy_env ?ds 0, batch_at toy_env ?ds 1]"
    by (simp add: upt_rec)
  have l: "batch_size ?t \<le> sample_size ?t" "sample_size ?t div batch_size ?t = 1"
    by simp_all
  from l s show ?thesis by blast
qed

text \<open>
  Claim C4, amended. For a positive batch size \<open>B\<close> that is at most the sample size
  \<open>S\<close>, with \<open>S\<close> below \<open>2 ^ 53\<close>, on a data set with at least one file and under the
  contracts of the decoder and the resizer, lines 156 to 159 of \<^verbatim>\<open>pretrain_generator\<close>
  return the next \<open>S div B\<close> batches of the data set's iterator, which advances by as
  many. Each batch has \<open>B\<close> images of \<open>input_size\<close> rows of \<open>input_size\<close> pixels of 3
  channels; each image is \<^verbatim>\<open>image_processing\<close> of a file of the data set. Their
  concatenation succeeds and has \<open>B * (S div B)\<close> images, every value of which lies in
  \<open>[-1, 1]\<close>; the array handed to the baseline export, the concatenation clipped to
  \<open>[0, 1]\<close>, has the same shape and every value in \<open>[0, 1]\<close>. The export and then the
  training loop, which keeps these batches, are what the method does next.
\<close>

theorem sample_batches_count_and_range:
  assumes "0 < batch_size self" "batch_size self \<le> sample_size self"
    and "sample_size self < 2 ^ 53"
    and "ds_files (train_dataset self e) \<noteq> []"
    and "decode_contract e" "resize_contract e" "0 < input_size self"
  shows "fst (sample_real_batches self e (train_dataset self e) w)
           = Inr (next_sample_batches self e w)
       \<and> batches_fetched (snd (sample_real_batches self e (train_dataset self e) w))
           = batches_fetched w + nat (sample_size self div batch_size self)
       \<and> int (length (next_sample_batches self e w)) = sample_size self div batch_size self
       \<and> (\<forall>b\<in>set (next_sample_batches self e w).
             batch_shape (nat (batch_size self)) (nat (input_size self))
               (nat (input_size self)) 3 b)
       \<and> (\<forall>img\<in>set (concat (next_sample_batches self e w)).
             (\<exists>f\<in>set (ds_files (train_dataset self e)). img = image_processing self e f)
             \<and> length (pixels img) = nat (input_size self) * nat (input_size self) * 3)
       \<and> fst (np_concatenate (next_sample_batches self e w) w')
           = Inr (concat (next_sample_batches self e w))
       \<and> int (length (concat (next_sample_batches self e w)))
           = batch_size self * (sample_size self div batch_size self)
       \<and> pixels_within (- 1) 1 (concat (next_sample_batches self e w))
       \<and> batch_shape (length (concat (next_sample_batches self e w)))
            (nat (input_size self)) (nat (input_size self)) 3
            (np_clip (concat (next_sample_batches self e w)) 0 1)
       \<and> pixels_within 0 1 (np_clip (concat (next_sample_batches self e w)) 0 1)
       \<and> sample_and_train self e (train_dataset self e) start w =
           seq (save_generated_images (np_clip (concat (next_sample_batches self e w)) 0 1)
                  ''result'' (Some ''sample_images.png'') 8)
             (\<lambda>_. for_each (range_py (pretrain_num_steps self))
                     (pretrain_step self e (train_dataset self e)
                        (next_sample_batches self e w) start))
             (snd (sample_real_batches self e (train_dataset self e) w))"
proof -
  let ?ds = "train_dataset self e"
  let ?k = "nat (sample_size self div batch_size self)"
  let ?rbs = "next_sample_batches self e w"
  let ?w1 = "w\<lparr>log_records := log_records w @
           [''Sampling '' @ str_int (sample_size self)
              @ '' images for tracking generator's performance...''],
        batches_fetched := batches_fetched w + ?k\<rparr>"
  let ?H = "nat (input_size self)"
  have ds: "ds_batch ?ds = batch_size self" "ds_map ?ds = image_processing self e"
    by (simp_all add: train_dataset_def)
  have run: "sample_real_batches self e ?ds w = (Inr ?rbs, ?w1)"
    unfolding next_sample_batches_def
    by (rule sample_real_batches_ok [OF assms(4,1,2,3)])
  have kpos: "0 < sample_size self div batch_size self"
    using assms(1,2) by (simp add: pos_imp_zdiv_pos_iff)
  then have 3: "int (length ?rbs) = sample_size self div batch_size self"
    by (simp add: next_sample_batches_def)
  from kpos have ne: "?rbs \<noteq> []" by (simp add: next_sample_batches_def)
  have each: "batch_shape (nat (batch_size self)) ?H ?H 3 b \<and> pixels_within (- 1) 1 b"
    if "b \<in> set ?rbs" for b
  proof -
    from that obtain k where "b = batch_at e ?ds k" by (auto simp: next_sample_batches_def)
    with batch_at_normalized [OF assms(5-7,4) ds(2), of k] ds(1) show ?thesis by simp
  qed
  then have 4: "\<forall>b\<in>set ?rbs. batch_shape (nat (batch_size self)) ?H ?H 3 b" by blast
  have 5: "\<forall>img\<in>set (concat ?rbs).
             (\<exists>f\<in>set (ds_files ?ds). img = image_processing self e f)
             \<and> length (pixels img) = ?H * ?H * 3"
  proof
    fix img assume "img \<in> set (concat ?rbs)"
    then obtain b where b: "b \<in> set ?rbs" "img \<in> set b" by auto
    from b(1) obtain k where k: "b = batch_at e ?ds k" by (auto simp: next_sample_batches_def)
    from batch_at_elements [OF assms(4), of img e k] b(2) k ds(2)
    have src: "\<exists>f\<in>set (ds_files ?ds). img = image_processing self e f" by simp
    from each [OF b(1)] b(2) have "image_shape ?H ?H 3 img" by (simp add: batch_shape_def)
    then have "length (pixels img) = ?H * ?H * 3" by (rule length_pixels)
    with src show "(\<exists>f\<in>set (ds_files ?ds). img = image_processing self e f)
             \<and> length (pixels img) = ?H * ?H * 3" by blast
  qed
  have cat: "np_concatenate ?rbs v = (Inr (concat ?rbs), v)" for v
    using ne by (simp add: np_concatenate_def returns_def)
  have "\<forall>b\<in>set ?rbs. length b = nat (batch_size self)"
    using 4 by (simp add: batch_shape_def)
  then have "length (concat ?rbs) = length ?rbs * nat (batch_size self)"
    by (rule length_concat_uniform)
  then have 7: "int (length (concat ?rbs))
      = batch_size self * (sample_size self div batch_size self)"
    using assms(1) kpos by (simp add: next_sample_batches_def)
  have "\<forall>b\<in>set ?rbs. pixels_within (- 1) 1 b" using each by blast
  then have 8: "pixels_within (- 1) 1 (concat ?rbs)"
    by (rule pixels_within_concat)
  have "batch_shape (length (concat ?rbs)) ?H ?H 3 (concat ?rbs)"
    using 4 by (auto simp: batch_shape_def)
  then have 9: "batch_shape (length (concat ?rbs)) ?H ?H 3 (np_clip (concat ?rbs) 0 1)"
    by (simp only: batch_shape_np_clip)
  have 10: "pixels_within 0 1 (np_clip (concat ?rbs) 0 1)"
    by (rule pixels_within_np_clip) simp
  have 11: "sample_and_train self e ?ds start w =
          seq (save_generated_images (np_clip (concat ?rbs) 0 1) ''result''
                 (Some ''sample_images.png'') 8)
            (\<lambda>_. for_each (range_py (pretrain_num_steps self))
                    (pretrain_step self e ?ds ?rbs start)) ?w1"
    unfolding sample_and_train_def
    apply (subst seq_def)
    apply (simp only: run prod.case sum.case)
    apply (subst seq_def)
    apply (simp only: cat prod.case sum.case)
    done
  from run 3 4 5 cat [of w'] 7 8 9 10 11 show ?thesis by simp
qed

text \<open>The theorem at the toy scenario: two batches of two images, each the one pixel
  (0, 128, 255) normalized.\<close>

theorem sample_batches_count_and_range_witness:
  "0 < batch_size toy_trainer \<and> batch_size toy_trainer \<le> sample_size toy_trainer
   \<and> sample_size toy_trainer < 2 ^ 53
   \<and> ds_files (train_dataset toy_trainer toy_env) \<noteq> []
   \<and> decode_contract toy_env \<and> resize_contract toy_env \<and> 0 < input_size toy_trainer
   \<and> fst (sample_real_batches toy_trainer toy_env (train_dataset toy_trainer toy_env)
            fresh_world)
        = Inr (next_sample_batches toy_trainer toy_env fresh_world)
   \<and> length (next_sample_batches toy_trainer toy_env fresh_world) = 2
   \<and> length (concat (next_sample_batches toy_trainer toy_env fresh_world)) = 4
   \<and> concat (next_sample_batches toy_trainer toy_env fresh_world)
        = replicate 4 [[[- 1, 1 / 255, 1]]]
   \<and> pixels_within (- 1) 1 (concat (next_sample_batches toy_trainer toy_env fresh_world))
   \<and> pixels_within 0 1
        (np_clip (concat (next_sample_batches toy_trainer toy_env fresh_world)) 0 1)"
proof -
  have h: "0 < batch_size toy_trainer" "batch_size toy_trainer \<le> sample_size toy_trainer"
    "sample_size toy_trainer < 2 ^ 53"
    "ds_files (train_dataset toy_trainer toy_env) \<noteq> []"
    by (simp_all add: toy_trainer_def toy_env_def train_dataset_def)
  have i: "0 < input_size toy_trainer" by (simp add: toy_trainer_def)
  have v: "sample_size toy_trainer div batch_size toy_trainer = 2"
    "batch_size toy_trainer * (sample_size toy_trainer div batch_size toy_trainer) = 4"
    by (simp_all add: toy_trainer_def)
  note t = sample_batches_count_and_range [OF h toy_contracts i, of fresh_world fresh_world 0]
  from t have 1: "fst (sample_real_batches toy_trainer toy_env
        (train_dataset toy_trainer toy_env) fresh_world)
        = Inr (next_sample_batches toy_trainer toy_env fresh_world)" by blast
  from t v have 2: "length (next_sample_batches toy_trainer toy_env fresh_world) = 2"
    "length (concat (next_sample_batches toy_trainer toy_env fresh_world)) = 4"
    by simp_all
  from t have 3: "pixels_within (- 1) 1 (concat (next_sample_batches toy_trainer toy_env
       fresh_world))"
    "pixels_within 0 1
        (np_clip (concat (next_sample_batches toy_trainer toy_env fresh_world)) 0 1)"
    by blast+
  have img: "image_processing toy_trainer toy_env f = [[[- 1, 1 / 255, 1]]]" for f
    by (simp add: image_processing_def Let_def toy_trainer_def toy_env_def)
  have el: "element_at toy_env (train_dataset toy_trainer toy_env) = (\<lambda>k. [[[- 1, 1 / 255, 1]]])"
    by (rule ext) (simp add: element_at_def train_dataset_def img)
  have b2: "nat (ds_batch (train_dataset toy_trainer toy_env)) = 2"
    by (simp add: train_dataset_def toy_trainer_def)
  have ba: "batch_at toy_env (train_dataset toy_trainer toy_env) k
      = replicate 2 [[[- 1, 1 / 255, 1]]]" for k
    by (simp only: batch_at_def el map_replicate_const b2) (simp add: numeral_eq_Suc)
  have 4: "concat (next_sample_batches toy_trainer toy_env fresh_world)
        = replicate 4 [[[- 1, 1 / 255, 1]]]"
  proof -
    have "next_sample_batches toy_trainer toy_env fresh_world
        = replicate 2 (replicate 2 [[[- 1, 1 / 255, 1]]])"
      unfolding next_sample_batches_def
      by (simp add: ba [abs_def] map_replicate_const v) (simp add: numeral_eq_Suc)
    then show ?thesis by (simp add: numeral_eq_Suc)
  qed
  from h i toy_contracts 1 2 3 4 show ?thesis by blast
qed

section \<open>The generator's total loss\<close>

text \<open>
  Claim C5. In \<^verbatim>\<open>train_gan\<close> the generator's total loss is its adversarial loss plus 10
  times the content loss; the adversarial loss is the mean, over the discriminator's
  outputs on the generated images, of the cross-entropy of the sigmoid of the output
  against the label 1; the content loss is the mean absolute difference of the feature
  extractor's embeddings of the source images and of the generated images (which have
  one shape). The numerically stable formula of the runtime and the textbook
  cross-entropy agree on the reals.
\<close>

theorem generator_total_loss:
  assumes "length (vgg e vars (generator e vars input_a)) = length (vgg e vars input_a)"
  shows "g_loss (train_gan_losses e vars input_a input_b input_b_smooth)
           = spec_generator_loss e vars input_a
       \<and> g_loss (train_gan_losses e vars input_a input_b input_b_smooth)
           = g_adversarial_loss (train_gan_losses e vars input_a input_b input_b_smooth)
             + 10 * gan_content_loss (train_gan_losses e vars input_a input_b input_b_smooth)
       \<and> g_adversarial_loss (train_gan_losses e vars input_a input_b input_b_smooth)
           = spec_adversarial_loss (discriminator e vars (generator e vars input_a))
       \<and> gan_content_loss (train_gan_losses e vars input_a input_b input_b_smooth)
           = spec_content_loss (vgg e vars input_a) (vgg e vars (generator e vars input_a))"
  using content_loss_refines [OF assms]
  by (simp add: train_gan_losses_def Let_def spec_generator_loss_def reduce_mean_def
      adversarial_loss_refines)

text \<open>The theorem at the toy networks: a discriminator that answers 0 and a generator
  that returns its input give the loss \<open>ln 2\<close>.\<close>

theorem generator_total_loss_witness:
  "length (vgg toy_env (\<lambda>_. []) (generator toy_env (\<lambda>_. []) [[[[0, 1 / 2, 1]]]]))
     = length (vgg toy_env (\<lambda>_. []) [[[[0, 1 / 2, 1]]]])
   \<and> g_loss (train_gan_losses toy_env (\<lambda>_. []) [[[[0, 1 / 2, 1]]]] [[[[1, 1, 1]]]] [[[[0, 0, 0]]]])
     = spec_generator_loss toy_env (\<lambda>_. []) [[[[0, 1 / 2, 1]]]]
   \<and> spec_generator_loss toy_env (\<lambda>_. []) [[[[0, 1 / 2, 1]]]] = ln 2"
proof -
  have h: "length (vgg toy_env (\<lambda>_. []) (generator toy_env (\<lambda>_. []) [[[[0, 1 / 2, 1]]]]))
     = length (vgg toy_env (\<lambda>_. []) [[[[0, 1 / 2, 1]]]])"
    by (simp add: toy_env_def)
  have v: "spec_generator_loss toy_env (\<lambda>_. []) [[[[0, 1 / 2, 1]]]] = ln 2"
    by (simp add: spec_generator_loss_def spec_adversarial_loss_def spec_content_loss_def
        toy_env_def cross_entropy_def sigmoid_def flatten_def pixels_def ln_div
        lessThan_nat_numeral lessThan_Suc)
  from h v generator_total_loss [OF h, of "[[[[1, 1, 1]]]]" "[[[[0, 0, 0]]]]"]
  show ?thesis by simp
qed

section \<open>The images of a data set\<close>

text \<open>
  Claim C6. Given a decoder that yields three channels and a resizer that yields the
  requested size with values between 0 and 255 (the contracts of the runtime), a
  positive input size and batch size and at least one file, \<^verbatim>\<open>get_dataset\<close> returns a
  data set of which every evaluation of \<^verbatim>\<open>get_next\<close> delivers a batch: it has
  \<open>batch_size\<close> images, each of \<open>input_size\<close> rows of \<open>input_size\<close> pixels of 3 channels,
  and every value lies in \<open>[-1, 1]\<close>. Each image is the resized decoded file with every
  value \<open>v\<close> replaced by \<open>v / 127.5 - 1\<close>.
\<close>

theorem get_dataset_batches_normalized:
  assumes "decode_contract e" "resize_contract e" "0 < input_size self" "0 < batch_size'"
    and "glob e (path_join (path_join (path_join ''datasets'' dataset_name')
                   (type' @ domain)) ''*'') \<noteq> []"
  shows "\<exists>ds w'. get_dataset self e dataset_name' domain type' batch_size' w = (Inr ds, w')
      \<and> (\<forall>w2. \<exists>b w3. get_next e ds w2 = (Inr b, w3)
            \<and> batch_shape (nat batch_size') (nat (input_size self)) (nat (input_size self)) 3 b
            \<and> pixels_within (- 1) 1 b)
      \<and> (\<forall>filename. ds_map ds filename =
            map (map (map (\<lambda>v. v / 127.5 - 1)))
              (resize_images e (decode_jpeg e (read_file e filename) 3)
                 (input_size self) (input_size self)))"
proof -
  let ?files = "glob e (path_join (path_join (path_join ''datasets'' dataset_name')
                   (type' @ domain)) ''*'')"
  let ?ds = "\<lparr>ds_files = ?files, ds_map = image_processing self e, ds_batch = batch_size'\<rparr>"
  let ?w' = "w\<lparr>log_records := log_records w @
      [str_int (int (length ?files)) @ '' domain'' @ domain
                @ '' images available in '' @ type' @ domain @ '' folder.'']\<rparr>"
  have 1: "get_dataset self e dataset_name' domain type' batch_size' w = (Inr ?ds, ?w')"
    using assms(5) by (simp add: get_dataset_def Let_def seq_simps returns_def)
  have files: "ds_files ?ds \<noteq> []" using assms(5) by simp
  have m: "ds_map ?ds = image_processing self e" by simp
  have 2: "\<exists>b w3. get_next e ?ds w2 = (Inr b, w3)
            \<and> batch_shape (nat batch_size') (nat (input_size self)) (nat (input_size self)) 3 b
            \<and> pixels_within (- 1) 1 b" for w2
    using get_next_ok [OF files, of e w2] batch_at_normalized [OF assms(1-3) files m, of "batches_fetched w2"]
    by simp
  have 3: "ds_map ?ds filename =
            map (map (map (\<lambda>v. v / 127.5 - 1)))
              (resize_images e (decode_jpeg e (read_file e filename) 3)
                 (input_size self) (input_size self))" for filename
    by (simp add: image_processing_def Let_def)
  from 1 2 3 show ?thesis by blast
qed

text \<open>The theorem at the toy data set, whose files decode to the pixel (0, 128, 255).\<close>

theorem get_dataset_batches_normalized_witness:
  "decode_contract toy_env \<and> resize_contract toy_env \<and> 0 < input_size toy_trainer
   \<and> glob toy_env (path_join (path_join (path_join ''datasets'' ''toy'')
                   (''train'' @ ''A'')) ''*'') \<noteq> []
   \<and> (\<exists>ds w'. get_dataset toy_trainer toy_env ''toy'' ''A'' ''train'' 2 fresh_world = (Inr ds, w')
      \<and> (\<forall>w2. \<exists>b w3. get_next toy_env ds w2 = (Inr b, w3)
            \<and> batch_shape 2 1 1 3 b \<and> pixels_within (- 1) 1 b)
      \<and> ds_map ds ''a.jpg'' = [[[- 1, 1 / 255, 1]]])"
proof -
  have h: "0 < input_size toy_trainer" "(0::int) < 2"
    "glob toy_env (path_join (path_join (path_join ''datasets'' ''toy'')
                   (''train'' @ ''A'')) ''*'') \<noteq> []"
    by (simp_all add: toy_trainer_def toy_env_def)
  from get_dataset_batches_normalized [OF toy_contracts h, of fresh_world]
  obtain ds w' where 1: "get_dataset toy_trainer toy_env ''toy'' ''A'' ''train'' 2 fresh_world
        = (Inr ds, w')"
    and 2: "\<forall>w2. \<exists>b w3. get_next toy_env ds w2 = (Inr b, w3)
            \<and> batch_shape (nat 2) (nat (input_size toy_trainer)) (nat (input_size toy_trainer)) 3 b
            \<and> pixels_within (- 1) 1 b"
    and 3: "\<forall>filename. ds_map ds filename =
            map (map (map (\<lambda>v. v / 127.5 - 1)))
              (resize_images toy_env (decode_jpeg toy_env (read_file toy_env filename) 3)
                 (input_size toy_trainer) (input_size toy_trainer))"
    by blast
  have s: "input_size toy_trainer = 1" by (simp add: toy_trainer_def)
  from 3 have "ds_map ds ''a.jpg'' = [[[- 1, 1 / 255, 1]]]"
    by (simp add: s) (simp add: toy_env_def)
  with 1 2 h toy_contracts show ?thesis by (auto simp: s)
qed

section \<open>Training steps change the generator's and the optimizer's variables only\<close>

text \<open>
  Claim C7 says that a training step changes no variable outside the generator's list.
  It does: the optimizer's own variables are session variables outside that list, and
  every run of the training operation changes them. In the toy run \<^verbatim>\<open>beta1_power\<close> is
  9/10 after the initializer and 81/100 after one \<^verbatim>\<open>sess.run([train_op,
  content_loss])\<close>.
\<close>

theorem adam_changes_variables_outside_generator_list:
  "''beta1_power'' \<notin> set (g_to_save_vars toy_env)
   \<and> variables (snd (global_variables_initializer toy_env fresh_world)) ''beta1_power''
       = [9 / 10]
   \<and> variables (snd (run_train_op toy_trainer toy_env (train_dataset toy_trainer toy_env)
         (snd (global_variables_initializer toy_env fresh_world)))) ''beta1_power''
       = [81 / 100]"
  by (simp add: toy_env_def train_dataset_def global_variables_initializer_def
      run_train_op_def seq_def get_next_def Let_def returns_def minimize_def adam_slots_def)

text \<open>
  Claim C7, amended. The training operation is \<^verbatim>\<open>opt.minimize(content_loss,
  var_list=g.to_save_vars)\<close>. A variable that is neither in the generator's list nor
  one of the optimizer's own (\<^verbatim>\<open>beta1_power\<close>, \<^verbatim>\<open>beta2_power\<close>, the moment slots of the
  listed variables), such as a parameter of the feature extractor, has the same value
  after the training operation, after \<^verbatim>\<open>sess.run([train_op, content_loss])\<close>, after a
  whole round of the loop (with its report, if one is due) and after the whole loop,
  whether the loop returns or raises.
\<close>

theorem training_steps_change_generator_and_optimizer_variables_only:
  assumes "v \<notin> set (g_to_save_vars e)" "v \<notin> set (adam_variables (g_to_save_vars e))"
  shows "variables (snd (minimize e (pretrain_learning_rate self) loss (g_to_save_vars e) w)) v
           = variables w v
       \<and> variables (snd (run_train_op self e ds w)) v = variables w v
       \<and> variables (snd (pretrain_step self e ds real_batches start step w)) v = variables w v
       \<and> variables (snd (for_each (range_py (pretrain_num_steps self))
                           (pretrain_step self e ds real_batches start) w)) v = variables w v"
  using assms
    keeps_same_outside_minimize [of "g_to_save_vars e" e "pretrain_learning_rate self" loss]
    keeps_same_outside_run_train_op [of e self ds]
    keeps_same_outside_pretrain_step [of e self ds real_batches start step]
    keeps_same_outside_training_loop [of e "range_py (pretrain_num_steps self)" self ds
      real_batches start]
  by (simp add: keeps_def same_outside_def)

text \<open>The theorem at the toy run for a variable of the feature extractor; the
  generator's own variable does change in a training operation.\<close>

theorem training_steps_change_generator_and_optimizer_variables_only_witness:
  "''vgg/conv1_1/kernel'' \<notin> set (g_to_save_vars toy_env)
   \<and> ''vgg/conv1_1/kernel'' \<notin> set (adam_variables (g_to_save_vars toy_env))
   \<and> variables (snd (for_each (range_py (pretrain_num_steps toy_trainer))
         (pretrain_step toy_trainer toy_env (train_dataset toy_trainer toy_env) [] 0)
         (fresh_world\<lparr>variables := (\<lambda>_. [0])\<rparr>))) ''vgg/conv1_1/kernel'' = [0]
   \<and> variables (snd (minimize toy_env (1 / 100000) (\<lambda>_. 0) (g_to_save_vars toy_env)
         (fresh_world\<lparr>variables := (\<lambda>_. [0])\<rparr>))) ''generator/kernel'' = [- (1 / 100000)]"
proof -
  have h: "''vgg/conv1_1/kernel'' \<notin> set (g_to_save_vars toy_env)"
    "''vgg/conv1_1/kernel'' \<notin> set (adam_variables (g_to_save_vars toy_env))"
    by (simp_all add: toy_env_def adam_variables_def adam_slots_def)
  have g: "variables (snd (minimize toy_env (1 / 100000) (\<lambda>_. 0) (g_to_save_vars toy_env)
         (fresh_world\<lparr>variables := (\<lambda>_. [0])\<rparr>))) ''generator/kernel'' = [- (1 / 100000)]"
    by (simp add: minimize_def toy_env_def fresh_world_def)
  from training_steps_change_generator_and_optimizer_variables_only [OF h, of toy_trainer
      "\<lambda>_. 0" "fresh_world\<lparr>variables := (\<lambda>_. [0])\<rparr>"
      "train_dataset toy_trainer toy_env" "[]" 0 0]
  have "variables (snd (for_each (range_py (pretrain_num_steps toy_trainer))
         (pretrain_step toy_trainer toy_env (train_dataset toy_trainer toy_env) [] 0)
         (fresh_world\<lparr>variables := (\<lambda>_. [0])\<rparr>))) ''vgg/conv1_1/kernel'' = [0]"
    by simp
  with h g show ?thesis by blast
qed

section \<open>The diagnostic export closes its figure\<close>

text \<open>
  Claim C8. For a batch of 1, 7, 8 or 16 images \<^verbatim>\<open>_save_generated_images\<close> returns
  (its value is \<open>()\<close>, the method has no result) and the figures that are open after
  the call are exactly those that were open before it: the figure the call created has
  been closed.
\<close>

theorem save_generated_images_closes_figure:
  assumes "length batch_x \<in> {1, 7, 8, 16}"
  shows "fst (save_generated_images batch_x directory image_name 8 w) = Inr ()
       \<and> figures (snd (save_generated_images batch_x directory image_name 8 w)) = figures w"
proof -
  from assms have "length batch_x < 8 \<or> 8 dvd length batch_x" by auto
  then have "save_generated_images batch_x directory image_name 8 w
      = (Inr (), after_export batch_x directory image_name w)"
    by (rule save_generated_images_ok)
  then show ?thesis
    by (simp add: after_export_def split: option.splits)
qed

text \<open>The theorem at a batch of 16 one-pixel images in a fresh process.\<close>

theorem save_generated_images_closes_figure_witness:
  "length (replicate 16 [[[0, 1/2, 1]]] :: batch) \<in> {1, 7, 8, 16}
   \<and> fst (save_generated_images (replicate 16 [[[0, 1/2, 1]]]) ''result''
            (Some ''sample_images.png'') 8 fresh_world) = Inr ()
   \<and> figures (snd (save_generated_images (replicate 16 [[[0, 1/2, 1]]]) ''result''
            (Some ''sample_images.png'') 8 fresh_world)) = []"
proof -
  have h: "length (replicate 16 [[[0, 1/2, 1]]] :: batch) \<in> {1, 7, 8, 16}" by simp
  show ?thesis
    using h save_generated_images_closes_figure [OF h, of "''result''"
        "Some ''sample_images.png''" fresh_world]
    by (simp add: fresh_world_def)
qed


section \<open>The diagnostic export leaks its figure when the grid is too small\<close>

text \<open>
  Claim C9. For a batch of 9 to 15 images line 81 computes one row, the grid has 8
  cells, \<^verbatim>\<open>add_subplot\<close> raises \<open>ValueError\<close> at position 9, the exception leaves
  the method, and the figure, holding the 8 subplots that fitted, is still open: the
  call to \<^verbatim>\<open>plt.close\<close> was not reached. In general the method returns with its
  figure closed exactly when the batch has at most 8 images or a multiple of 8.
\<close>

theorem save_generated_images_leaks_figure:
  "(9 \<le> length batch_x \<and> length batch_x \<le> 15 \<longrightarrow>
      num_rows_of (length batch_x) = 1
      \<and> save_generated_images batch_x directory image_name 8 w =
          (Inl (ValueError ''num must be 1 <= num <= 8, not 9''),
           w\<lparr>figures := figures w @ [(new_figure_number (figures w),
                \<lparr>figsize = (8, 6), subplots = map (drawn batch_x 1 8) [0..<8]\<rparr>)]\<rparr>))
   \<and> (fst (save_generated_images batch_x directory image_name 8 w) = Inr ()
        \<and> figures (snd (save_generated_images batch_x directory image_name 8 w)) = figures w
      \<longleftrightarrow> length batch_x \<le> 8 \<or> 8 dvd length batch_x)"
proof (intro conjI impI)
  assume a: "9 \<le> length batch_x \<and> length batch_x \<le> 15"
  then show rows: "num_rows_of (length batch_x) = 1"
    by (simp add: num_rows_of_def) presburger
  from a have "\<not> (length batch_x < 8 \<or> 8 dvd length batch_x)"
    by presburger
  from save_generated_images_fail [OF this, of directory image_name w] rows
  show "save_generated_images batch_x directory image_name 8 w =
          (Inl (ValueError ''num must be 1 <= num <= 8, not 9''),
           w\<lparr>figures := figures w @ [(new_figure_number (figures w),
                \<lparr>figsize = (8, 6), subplots = map (drawn batch_x 1 8) [0..<8]\<rparr>)]\<rparr>)"
    by (simp add: leaked_figure_def str_int_8)
next
  show "fst (save_generated_images batch_x directory image_name 8 w) = Inr ()
        \<and> figures (snd (save_generated_images batch_x directory image_name 8 w)) = figures w
      \<longleftrightarrow> length batch_x \<le> 8 \<or> 8 dvd length batch_x"
  proof (cases "length batch_x < 8 \<or> 8 dvd length batch_x")
    case True
    then have "length batch_x \<le> 8 \<or> 8 dvd length batch_x" by auto
    with save_generated_images_ok [OF True, of directory image_name w] show ?thesis
      by (simp add: after_export_def split: option.splits)
  next
    case False
    then have "\<not> (length batch_x \<le> 8 \<or> 8 dvd length batch_x)" by auto
    with save_generated_images_fail [OF False, of directory image_name w] show ?thesis
      by simp
  qed
qed

text \<open>The theorem at a batch of 9 one-pixel images in a fresh process.\<close>

theorem save_generated_images_leaks_figure_witness:
  "9 \<le> length (replicate 9 [[[0, 1/2, 1]]] :: batch)
   \<and> length (replicate 9 [[[0, 1/2, 1]]] :: batch) \<le> 15
   \<and> fst (save_generated_images (replicate 9 [[[0, 1/2, 1]]]) ''result''
        (Some ''sample_images.png'') 8 fresh_world)
       = Inl (ValueError ''num must be 1 <= num <= 8, not 9'')
   \<and> map fst (figures (snd (save_generated_images (replicate 9 [[[0, 1/2, 1]]]) ''result''
        (Some ''sample_images.png'') 8 fresh_world))) = [1]
   \<and> events (snd (save_generated_images (replicate 9 [[[0, 1/2, 1]]]) ''result''
        (Some ''sample_images.png'') 8 fresh_world)) = []"
  using save_generated_images_leaks_figure [of "replicate 9 [[[0, 1/2, 1]]]" "''result''"
      "Some ''sample_images.png''" fresh_world]
  by (simp add: fresh_world_def new_figure_number_def)

section \<open>A sample smaller than a batch\<close>

text \<open>
  Claim C10 says that a sample size below the batch size always gives
  \<^verbatim>\<open>int(self.sample_size / self.batch_size) = 0\<close> and the \<open>ValueError\<close> of
  \<^verbatim>\<open>np.concatenate\<close>. The quotient is rounded to a double first: for a sample size of
  \<open>2 ^ 60 - 1\<close> and a batch size of \<open>2 ^ 60\<close> it is 1, one batch is drawn and
  \<^verbatim>\<open>np.concatenate\<close> returns.
\<close>

theorem sample_below_batch_still_draws_a_batch:
  "sample_size (toy_trainer\<lparr>batch_size := 2 ^ 60, sample_size := 2 ^ 60 - 1\<rparr>)
     < batch_size (toy_trainer\<lparr>batch_size := 2 ^ 60, sample_size := 2 ^ 60 - 1\<rparr>)
   \<and> fst (int_truediv (2 ^ 60 - 1) (2 ^ 60) fresh_world) = Inr 1
   \<and> fst (sample_real_batches (toy_trainer\<lparr>batch_size := 2 ^ 60, sample_size := 2 ^ 60 - 1\<rparr>)
          toy_env
          (train_dataset (toy_trainer\<lparr>batch_size := 2 ^ 60, sample_size := 2 ^ 60 - 1\<rparr>) toy_env)
          fresh_world)
       = Inr [batch_at toy_env
                (train_dataset (toy_trainer\<lparr>batch_size := 2 ^ 60, sample_size := 2 ^ 60 - 1\<rparr>)
                   toy_env) 0]
   \<and> fst (np_concatenate
          [batch_at toy_env
             (train_dataset (toy_trainer\<lparr>batch_size := 2 ^ 60, sample_size := 2 ^ 60 - 1\<rparr>)
                toy_env) 0] fresh_world)
       = Inr (batch_at toy_env
                (train_dataset (toy_trainer\<lparr>batch_size := 2 ^ 60, sample_size := 2 ^ 60 - 1\<rparr>)
                   toy_env) 0)"
proof -
  let ?t = "toy_trainer\<lparr>batch_size := 2 ^ 60, sample_size := 2 ^ 60 - 1\<rparr>"
  let ?ds = "train_dataset ?t toy_env"
  have q: "int_truediv (sample_size ?t) (batch_size ?t) v = (Inr 1, v)" for v
    by (simp add: int_truediv_def returns_def double_quotient_values)
  have files: "ds_files ?ds \<noteq> []" by (simp add: train_dataset_def toy_env_def)
  have "batches_fetched fresh_world = 0" by (simp add: fresh_world_def)
  with sample_real_batches_drawn [OF files q, of toy_env fresh_world]
  have s: "fst (sample_real_batches ?t toy_env ?ds fresh_world) = Inr [batch_at toy_env ?ds 0]"
    by simp
  have c: "fst (np_concatenate [batch_at toy_env ?ds 0] fresh_world)
      = Inr (batch_at toy_env ?ds 0)"
    by (simp add: np_concatenate_def returns_def)
  have l: "sample_size ?t < batch_size ?t" by simp
  from q [of fresh_world] have q': "fst (int_truediv (2 ^ 60 - 1) (2 ^ 60) fresh_world) = Inr 1"
    by simp
  from l q' s c show ?thesis by blast
qed

text \<open>
  Claim C10, amended. On a source folder with at least one image, when the sample size
  is smaller than the (positive) batch size and below \<open>2 ^ 53\<close> in absolute value,
  \<^verbatim>\<open>int(self.sample_size / self.batch_size)\<close> is 0 (not positive, for a negative
  sample size), no batch is drawn, \<^verbatim>\<open>np.concatenate\<close> is called on the empty list and
  raises \<open>ValueError\<close>, and the method ends there: nothing was exported or saved and no
  training operation was run.
\<close>

theorem pretrain_generator_sample_smaller_than_batch:
  assumes "ds_files (train_dataset self e) \<noteq> []"
    and "0 < batch_size self" "sample_size self < batch_size self"
    and "\<bar>sample_size self\<bar> < 2 ^ 53"
  shows "fst (pretrain_generator self e w)
           = Inl (ValueError ''need at least one array to concatenate'')
       \<and> events (snd (pretrain_generator self e w)) = events w
       \<and> batches_fetched (snd (pretrain_generator self e w)) = 0
       \<and> (0 \<le> sample_size self \<longrightarrow>
            int_truediv (sample_size self) (batch_size self) w = (Inr 0, w))
       \<and> np_concatenate [] w = (Inl (ValueError ''need at least one array to concatenate''), w)"
proof -
  from pretrain_generator_sample_too_small [OF assms, of w] obtain w'
    where run: "pretrain_generator self e w =
            (Inl (ValueError ''need at least one array to concatenate''), w')"
      and ev: "events w' = events w" and bf: "batches_fetched w' = 0"
    by blast
  have "batch_size self \<noteq> 0" using assms(2) by simp
  from int_truediv_exact [OF assms(4) this, of w]
  have zero: "0 \<le> sample_size self \<longrightarrow>
      int_truediv (sample_size self) (batch_size self) w = (Inr 0, w)"
    using assms(2,3) by simp
  show ?thesis
    using run ev bf zero by (simp add: np_concatenate_def raises_def)
qed

text \<open>The theorem at the toy scenario with a sample size of 1 and a batch size of 2.\<close>

theorem pretrain_generator_sample_smaller_than_batch_witness:
  "ds_files (train_dataset (toy_trainer\<lparr>sample_size := 1\<rparr>) toy_env) \<noteq> []
   \<and> 0 < batch_size (toy_trainer\<lparr>sample_size := 1\<rparr>)
   \<and> sample_size (toy_trainer\<lparr>sample_size := 1\<rparr>) < batch_size (toy_trainer\<lparr>sample_size := 1\<rparr>)
   \<and> \<bar>sample_size (toy_trainer\<lparr>sample_size := 1\<rparr>)\<bar> < 2 ^ 53
   \<and> fst (pretrain_generator (toy_trainer\<lparr>sample_size := 1\<rparr>) toy_env fresh_world)
        = Inl (ValueError ''need at least one array to concatenate'')
   \<and> events (snd (pretrain_generator (toy_trainer\<lparr>sample_size := 1\<rparr>) toy_env fresh_world)) = []"
proof -
  have h: "ds_files (train_dataset (toy_trainer\<lparr>sample_size := 1\<rparr>) toy_env) \<noteq> []"
    "0 < batch_size (toy_trainer\<lparr>sample_size := 1\<rparr>)"
    "sample_size (toy_trainer\<lparr>sample_size := 1\<rparr>) < batch_size (toy_trainer\<lparr>sample_size := 1\<rparr>)"
    "\<bar>sample_size (toy_trainer\<lparr>sample_size := 1\<rparr>)\<bar> < 2 ^ 53"
    by (simp_all add: toy_trainer_def toy_env_def train_dataset_def)
  have "events fresh_world = []" by (simp add: fresh_world_def)
  with pretrain_generator_sample_smaller_than_batch [OF h, of fresh_world]
  have "fst (pretrain_generator (toy_trainer\<lparr>sample_size := 1\<rparr>) toy_env fresh_world)
        = Inl (ValueError ''need at least one array to concatenate'')"
    "events (snd (pretrain_generator (toy_trainer\<lparr>sample_size := 1\<rparr>) toy_env fresh_world)) = []"
    by simp_all
  with h show ?thesis by blast
qed

end
